theory Spec2Isabelle
  imports Main "HOL-Library.Word"
begin

unbundle bit_operations_syntax

section \<open>Machine data\<close>

text \<open>
  The editor client of \<^verbatim>\<open>src/editor/editor_client.cpp\<close> turns each user command
  into one framed message for the server, and turns each inbound framed message into
  calls of the listeners registered for its event kind.

  Bytes are \<open>8 word\<close>, the 32-bit integers of the source (\<^verbatim>\<open>int\<close>, \<^verbatim>\<open>int32_t\<close>,
  \<^verbatim>\<open>uint32_t\<close>) are \<open>32 word\<close>; \<open>sint\<close> reads one as signed. A \<^verbatim>\<open>float\<close> is
  only ever copied by the source, never computed with, so it is modelled by its 32-bit
  pattern. A pointer is the memory seen from it: the byte at each offset.
\<close>

type_synonym byte = "8 word"
type_synonym uint32 = "32 word"
type_synonym int32 = "32 word"
type_synonym float32 = "32 word"
type_synonym ptr = "nat \<Rightarrow> byte"

text \<open>
  The source copies the bytes of integers as they lie in memory, so the byte order is the
  host's. It is a parameter of the model.
\<close>

datatype endian = LittleEndian | BigEndian

definition le_bytes :: "uint32 \<Rightarrow> byte list" where
  "le_bytes w = [ucast w, ucast (drop_bit 8 w), ucast (drop_bit 16 w), ucast (drop_bit 24 w)]"

fun le_value :: "byte list \<Rightarrow> uint32" where
  "le_value [] = 0"
| "le_value (b # bs) = ucast b OR push_bit 8 (le_value bs)"

text \<open>The four bytes of a 32-bit object in memory, and the object that four bytes hold.\<close>

definition bytes_of_u32 :: "endian \<Rightarrow> uint32 \<Rightarrow> byte list" where
  "bytes_of_u32 e w = (case e of LittleEndian \<Rightarrow> le_bytes w | BigEndian \<Rightarrow> rev (le_bytes w))"

definition u32_of_bytes :: "endian \<Rightarrow> byte list \<Rightarrow> uint32" where
  "u32_of_bytes e bs = (case e of LittleEndian \<Rightarrow> le_value bs | BigEndian \<Rightarrow> le_value (rev bs))"

text \<open>
  \<open>ptr_to bs\<close> points to an object whose bytes are \<open>bs\<close>; what lies behind the
  object is not specified. \<open>mem_at bs rest\<close> is memory that holds \<open>bs\<close> and then
  \<open>rest\<close>.
\<close>

definition ptr_to :: "byte list \<Rightarrow> ptr" where
  "ptr_to bs = (\<lambda>i. bs ! i)"

definition mem_at :: "byte list \<Rightarrow> ptr \<Rightarrow> ptr" where
  "mem_at bs rest = (\<lambda>i. if i < length bs then bs ! i else rest (i - length bs))"

text \<open>
  The source has no exceptions. Two things stop it: a call through the null
  implementation pointer, and a negative byte count handed to a copy.
\<close>

datatype fault = NullPointer | NegativeSize

text \<open>The \<open>sz\<close> bytes at a pointer, as a copy of \<open>sz\<close> bytes reads them.\<close>

definition region :: "ptr \<Rightarrow> int32 \<Rightarrow> fault + byte list" where
  "region p sz =
     (if sint sz < 0 then Inl NegativeSize else Inr (map p [0..<nat (sint sz)]))"

text \<open>
  A C string argument is the list of its characters before the terminator;
  \<open>c_str\<close> gives its bytes in memory, terminator included.
\<close>

definition byte_of_char :: "char \<Rightarrow> byte" where
  "byte_of_char c = of_nat (of_char c)"

definition strlen :: "string \<Rightarrow> nat" where
  "strlen s = length s"

definition c_str :: "string \<Rightarrow> byte list" where
  "c_str s = map byte_of_char s @ [0]"

section \<open>Collaborators that the source file includes\<close>

subsection \<open>Blob\<close>

text \<open>
  Modelled from the spec: the class \<^verbatim>\<open>Blob\<close> of \<^verbatim>\<open>core/blob.h\<close>, which is not among
  the sources. Section 4.1: \<^emph>\<open>write\<close> appends raw bytes to a growable buffer, advancing a
  write cursor; \<^emph>\<open>read\<close> copies bytes from a read cursor into a destination of known
  static size, advancing the read cursor; \<^emph>\<open>create(data, size)\<close> initializes a read-only
  view over externally supplied bytes; \<^emph>\<open>clear\<close> resets a write buffer to empty. No
  bounds-checking contract is assumed: a read copies from the view's memory whatever
  the view's size is.
\<close>

record Blob =
  m_buffer :: "byte list"
  m_data :: ptr
  m_size :: int32
  m_pos :: nat

definition Blob_new :: Blob where
  "Blob_new = \<lparr>m_buffer = [], m_data = ptr_to [], m_size = 0, m_pos = 0\<rparr>"

definition Blob_create :: "Blob \<Rightarrow> ptr \<Rightarrow> int32 \<Rightarrow> Blob" where
  "Blob_create b data sz = b\<lparr>m_data := data, m_size := sz, m_pos := 0\<rparr>"

definition Blob_write :: "Blob \<Rightarrow> byte list \<Rightarrow> Blob" where
  "Blob_write b bs = b\<lparr>m_buffer := m_buffer b @ bs\<rparr>"

definition Blob_read :: "Blob \<Rightarrow> nat \<Rightarrow> byte list \<times> Blob" where
  "Blob_read b n = (map (m_data b) [m_pos b..<m_pos b + n], b\<lparr>m_pos := m_pos b + n\<rparr>)"

definition Blob_read_int32 :: "endian \<Rightarrow> Blob \<Rightarrow> int32 \<times> Blob" where
  "Blob_read_int32 e b = (case Blob_read b 4 of (bs, b') \<Rightarrow> (u32_of_bytes e bs, b'))"

definition Blob_clearBuffer :: "Blob \<Rightarrow> Blob" where
  "Blob_clearBuffer b = b\<lparr>m_buffer := []\<rparr>"

definition Blob_getBuffer :: "Blob \<Rightarrow> ptr" where
  "Blob_getBuffer b = ptr_to (m_buffer b)"

definition Blob_getBufferSize :: "Blob \<Rightarrow> int32" where
  "Blob_getBufferSize b = of_nat (length (m_buffer b))"

subsection \<open>crc32\<close>

text \<open>
  Modelled from the spec: \<^verbatim>\<open>crc32\<close> of \<^verbatim>\<open>core/crc32.h\<close>, which is not among the
  sources. Section 6: names are mapped to 32-bit identifiers by the standard CRC-32
  checksum over the bytes of the name (reflected polynomial \<open>0xEDB88320\<close>, all ones at
  the start, complemented at the end).
\<close>

definition crc32_step :: "uint32 \<Rightarrow> uint32" where
  "crc32_step crc = (if bit crc 0 then drop_bit 1 crc XOR 0xEDB88320 else drop_bit 1 crc)"

definition crc32_byte :: "uint32 \<Rightarrow> byte \<Rightarrow> uint32" where
  "crc32_byte crc b = (crc32_step ^^ 8) (crc XOR ucast b)"

definition crc32 :: "string \<Rightarrow> uint32" where
  "crc32 str = NOT (foldl crc32_byte 0xFFFFFFFF (map byte_of_char str))"

subsection \<open>Path, Vec3, DelegateList\<close>

text \<open>
  Modelled from the spec: the class \<^verbatim>\<open>Path\<close> of \<^verbatim>\<open>core/path.h\<close>, which is not among
  the sources. Sections 4.2 and 9 call the two paths locally cached strings: assigning a
  C string stores it, \<^verbatim>\<open>c_str()\<close> gives it back, a new path is empty.
\<close>

type_synonym Path = string

text \<open>
  Modelled from the spec: \<^verbatim>\<open>Vec3\<close>, which is not among the sources. Section 4.2: a
  position is three 4-byte floating point numbers, here \<open>vec_x\<close>, \<open>vec_y\<close>, \<open>vec_z\<close>
  in the order of their addresses.
\<close>

record Vec3 =
  vec_x :: float32
  vec_y :: float32
  vec_z :: float32

definition bytes_of_Vec3 :: "endian \<Rightarrow> Vec3 \<Rightarrow> byte list" where
  "bytes_of_Vec3 e v = bytes_of_u32 e (vec_x v) @ bytes_of_u32 e (vec_y v) @ bytes_of_u32 e (vec_z v)"

text \<open>
  Modelled from the spec: the class \<^verbatim>\<open>DelegateList\<close>, which is not among the sources.
  Section 4.4: subscribing appends to the kind's ordered list; \<^emph>\<open>invoke(event)\<close> calls
  every registered listener with the same event instance. A listener gets the event by
  reference and acts on its own surroundings \<open>'w\<close>: it is a function from the event and
  the surroundings to the event as it left it and the new surroundings. Listeners do not
  reach back into the client (section 5: no re-entrant call).
\<close>

type_synonym ('e, 'w) delegate = "'e \<Rightarrow> 'w \<Rightarrow> 'e \<times> 'w"
type_synonym ('e, 'w) DelegateList = "('e, 'w) delegate list"

definition DelegateList_bind :: "('e, 'w) DelegateList \<Rightarrow> ('e, 'w) delegate \<Rightarrow> ('e, 'w) DelegateList" where
  "DelegateList_bind ds d = ds @ [d]"

fun DelegateList_invoke :: "('e, 'w) DelegateList \<Rightarrow> 'e \<Rightarrow> 'w \<Rightarrow> 'e \<times> 'w" where
  "DelegateList_invoke [] msg w = (msg, w)"
| "DelegateList_invoke (d # ds) msg w = (case d msg w of (msg', w') \<Rightarrow> DelegateList_invoke ds msg' w')"

subsection \<open>Message types and the platform\<close>

text \<open>
  The tags are enumerators of \<^verbatim>\<open>editor/client_message_types.h\<close> and
  \<^verbatim>\<open>editor/server_message_types.h\<close>, which are not among the sources: the enumerators
  the source file names are a datatype, their values a parameter.
\<close>

datatype ClientMessageType =
    LOOK_AT_SELECTED | ADD_COMPONENT | TOGGLE_GAME_MODE | ADD_ENTITY
  | POINTER_DOWN | POINTER_UP | POINTER_MOVE | LOAD | SET_WIREFRAME | NEW_UNIVERSE
  | SET_ANIMABLE_TIME | PLAY_PAUSE_ANIMABLE | SET_POSITION | SAVE | MOVE_CAMERA
  | PROPERTY_SET | GET_PROPERTIES

datatype ServerMessageType = ENTITY_POSITION | ENTITY_SELECTED | PROPERTY_LIST | LOG_MESSAGE

record platform =
  byte_order :: endian
  ClientMessageType_value :: "ClientMessageType \<Rightarrow> uint32"
  ServerMessageType_value :: "ServerMessageType \<Rightarrow> int32"

text \<open>
  The events and their \<^verbatim>\<open>read(stream)\<close> are declared in
  \<^verbatim>\<open>editor/server_message_types.h\<close>, which is not among the sources: the event types
  are type variables, and what a default-constructed event holds after \<^verbatim>\<open>read\<close> is a
  parameter, a function of the stream.
\<close>

record ('a, 'b, 'c, 'd) events =
  EntityPositionEvent_read :: "Blob \<Rightarrow> 'a"
  EntitySelectedEvent_read :: "Blob \<Rightarrow> 'b"
  LogEvent_read :: "Blob \<Rightarrow> 'c"
  PropertyListEvent_read :: "Blob \<Rightarrow> 'd"

section \<open>The editor client\<close>

text \<open>
  \<^verbatim>\<open>struct EditorClientImpl\<close>. Its field \<^verbatim>\<open>m_server\<close> is a reference to a server
  that lives outside the client: the server's state \<open>'srv\<close> is passed beside the client,
  and what \<^verbatim>\<open>EditorServer::onMessage(data, size)\<close> does to it is a parameter
  \<open>on :: ptr \<Rightarrow> int32 \<Rightarrow> 'srv \<Rightarrow> 'srv\<close>. Every operation takes the platform \<open>P\<close>
  first; the source's parameters \<^verbatim>\<open>size\<close>, \<^verbatim>\<open>value\<close> and \<^verbatim>\<open>length\<close> are written
  \<open>sz\<close>, \<open>val\<close> and \<open>len\<close>.
\<close>

record ('a, 'b, 'c, 'd, 'w) EditorClientImpl =
  m_base_path :: Path
  m_universe_path :: Path
  m_entity_position_changed :: "('a, 'w) DelegateList"
  m_entity_selected :: "('b, 'w) DelegateList"
  m_message_logged :: "('c, 'w) DelegateList"
  m_property_list_received :: "('d, 'w) DelegateList"

record ('a, 'b, 'c, 'd, 'w) EditorClient =
  m_impl :: "('a, 'b, 'c, 'd, 'w) EditorClientImpl option"

text \<open>
  \<^verbatim>\<open>EditorClient\<close> holds the pointer \<^verbatim>\<open>m_impl\<close>; a null pointer is \<open>None\<close>.
  \<open>create\<close> makes a new implementation, whose paths and lists of listeners are empty
  before the base path is assigned. \<open>destroy\<close> deletes the implementation if there is one.
\<close>

definition create :: "string \<Rightarrow> ('a, 'b, 'c, 'd, 'w) EditorClient \<Rightarrow> bool \<times> ('a, 'b, 'c, 'd, 'w) EditorClient" where
  "create base_path c =
     (True, c\<lparr>m_impl := Some \<lparr>m_base_path = base_path, m_universe_path = [],
        m_entity_position_changed = [], m_entity_selected = [], m_message_logged = [],
        m_property_list_received = []\<rparr>\<rparr>)"

definition destroy :: "('a, 'b, 'c, 'd, 'w) EditorClient \<Rightarrow> ('a, 'b, 'c, 'd, 'w) EditorClient" where
  "destroy c = (case m_impl c of Some impl \<Rightarrow> c\<lparr>m_impl := None\<rparr> | None \<Rightarrow> c)"

subsection \<open>Dispatch of inbound messages\<close>

text \<open>
  \<^verbatim>\<open>EditorClientImpl::onMessage\<close> assigns to no member of the implementation and
  returns nothing; the \<^verbatim>\<open>switch\<close> is the chain of comparisons in the order of its
  labels. The surroundings of the listeners are what a call changes.
  \<^verbatim>\<open>EditorClient::onMessage\<close> is \<open>onMessage\<close>.
\<close>

definition EditorClientImpl_onMessage ::
  "platform \<Rightarrow> ('a, 'b, 'c, 'd) events \<Rightarrow> ptr \<Rightarrow> int32 \<Rightarrow>
   ('a, 'b, 'c, 'd, 'w) EditorClientImpl \<Rightarrow> 'w \<Rightarrow> ('a, 'b, 'c, 'd, 'w) EditorClientImpl \<times> 'w" where
  "EditorClientImpl_onMessage P E data sz impl w =
     (let stream = Blob_create Blob_new data sz in
      case Blob_read_int32 (byte_order P) stream of (message_type, stream) \<Rightarrow>
        if message_type = ServerMessageType_value P ENTITY_POSITION then
          (let msg = EntityPositionEvent_read E stream in
           (impl, snd (DelegateList_invoke (m_entity_position_changed impl) msg w)))
        else if message_type = ServerMessageType_value P ENTITY_SELECTED then
          (let msg = EntitySelectedEvent_read E stream in
           (impl, snd (DelegateList_invoke (m_entity_selected impl) msg w)))
        else if message_type = ServerMessageType_value P PROPERTY_LIST then
          (let msg = PropertyListEvent_read E stream in
           (impl, snd (DelegateList_invoke (m_property_list_received impl) msg w)))
        else if message_type = ServerMessageType_value P LOG_MESSAGE then
          (let msg = LogEvent_read E stream in
           (impl, snd (DelegateList_invoke (m_message_logged impl) msg w)))
        else (impl, w))"

definition onMessage ::
  "platform \<Rightarrow> ('a, 'b, 'c, 'd) events \<Rightarrow> ptr \<Rightarrow> int32 \<Rightarrow>
   ('a, 'b, 'c, 'd, 'w) EditorClient \<Rightarrow> 'w \<Rightarrow> ('a, 'b, 'c, 'd, 'w) EditorClient \<times> 'w" where
  "onMessage P E data sz c w =
     (case m_impl c of
        Some impl \<Rightarrow>
          (case EditorClientImpl_onMessage P E data sz impl w of
             (impl', w') \<Rightarrow> (c\<lparr>m_impl := Some impl'\<rparr>, w'))
      | None \<Rightarrow> (c, w))"

definition propertyListReceived :: "('a, 'b, 'c, 'd, 'w) EditorClient \<Rightarrow> fault + ('d, 'w) DelegateList" where
  "propertyListReceived c =
     (case m_impl c of None \<Rightarrow> Inl NullPointer | Some impl \<Rightarrow> Inr (m_property_list_received impl))"

definition entitySelected :: "('a, 'b, 'c, 'd, 'w) EditorClient \<Rightarrow> fault + ('b, 'w) DelegateList" where
  "entitySelected c =
     (case m_impl c of None \<Rightarrow> Inl NullPointer | Some impl \<Rightarrow> Inr (m_entity_selected impl))"

definition entityPositionReceived :: "('a, 'b, 'c, 'd, 'w) EditorClient \<Rightarrow> fault + ('a, 'w) DelegateList" where
  "entityPositionReceived c =
     (case m_impl c of None \<Rightarrow> Inl NullPointer | Some impl \<Rightarrow> Inr (m_entity_position_changed impl))"

subsection \<open>Emission of commands\<close>

text \<open>
  \<^verbatim>\<open>EditorClientImpl::sendMessage\<close>. A null \<open>data\<close> is \<open>None\<close>.
\<close>

definition sendMessage ::
  "platform \<Rightarrow> (ptr \<Rightarrow> int32 \<Rightarrow> 'srv \<Rightarrow> 'srv) \<Rightarrow> uint32 \<Rightarrow> ptr option \<Rightarrow> int32 \<Rightarrow> 'srv \<Rightarrow> fault + 'srv" where
  "sendMessage P on type data sz srv =
     (let stream = Blob_write Blob_new (bytes_of_u32 (byte_order P) type) in
      case data of
        None \<Rightarrow> Inr (on (Blob_getBuffer stream) (Blob_getBufferSize stream) srv)
      | Some p \<Rightarrow>
          (case region p sz of
             Inl f \<Rightarrow> Inl f
           | Inr bs \<Rightarrow>
               (let stream = Blob_write stream bs in
                Inr (on (Blob_getBuffer stream) (Blob_getBufferSize stream) srv))))"

text \<open>The expression \<^verbatim>\<open>m_impl->sendMessage(type, data, size)\<close> of the public operations.\<close>

definition m_impl_sendMessage ::
  "platform \<Rightarrow> (ptr \<Rightarrow> int32 \<Rightarrow> 'srv \<Rightarrow> 'srv) \<Rightarrow> ('a, 'b, 'c, 'd, 'w) EditorClient \<Rightarrow>
   ClientMessageType \<Rightarrow> ptr option \<Rightarrow> int32 \<Rightarrow> 'srv \<Rightarrow> fault + (('a, 'b, 'c, 'd, 'w) EditorClient \<times> 'srv)" where
  "m_impl_sendMessage P on c type data sz srv =
     (case m_impl c of
        None \<Rightarrow> Inl NullPointer
      | Some impl \<Rightarrow>
          (case sendMessage P on (ClientMessageType_value P type) data sz srv of
             Inl f \<Rightarrow> Inl f
           | Inr srv' \<Rightarrow> Inr (c, srv')))"

definition getBasePath :: "('a, 'b, 'c, 'd, 'w) EditorClient \<Rightarrow> fault + string" where
  "getBasePath c = (case m_impl c of None \<Rightarrow> Inl NullPointer | Some impl \<Rightarrow> Inr (m_base_path impl))"

definition lookAtSelected ::
  "platform \<Rightarrow> (ptr \<Rightarrow> int32 \<Rightarrow> 'srv \<Rightarrow> 'srv) \<Rightarrow> ('a, 'b, 'c, 'd, 'w) EditorClient \<Rightarrow> 'srv \<Rightarrow>
   fault + (('a, 'b, 'c, 'd, 'w) EditorClient \<times> 'srv)" where
  "lookAtSelected P on c srv = m_impl_sendMessage P on c LOOK_AT_SELECTED None 0 srv"

definition addComponent ::
  "platform \<Rightarrow> (ptr \<Rightarrow> int32 \<Rightarrow> 'srv \<Rightarrow> 'srv) \<Rightarrow> uint32 \<Rightarrow> ('a, 'b, 'c, 'd, 'w) EditorClient \<Rightarrow> 'srv \<Rightarrow>
   fault + (('a, 'b, 'c, 'd, 'w) EditorClient \<times> 'srv)" where
  "addComponent P on type c srv =
     m_impl_sendMessage P on c ADD_COMPONENT (Some (ptr_to (bytes_of_u32 (byte_order P) type))) 4 srv"

definition toggleGameMode ::
  "platform \<Rightarrow> (ptr \<Rightarrow> int32 \<Rightarrow> 'srv \<Rightarrow> 'srv) \<Rightarrow> ('a, 'b, 'c, 'd, 'w) EditorClient \<Rightarrow> 'srv \<Rightarrow>
   fault + (('a, 'b, 'c, 'd, 'w) EditorClient \<times> 'srv)" where
  "toggleGameMode P on c srv = m_impl_sendMessage P on c TOGGLE_GAME_MODE None 0 srv"

definition addEntity ::
  "platform \<Rightarrow> (ptr \<Rightarrow> int32 \<Rightarrow> 'srv \<Rightarrow> 'srv) \<Rightarrow> ('a, 'b, 'c, 'd, 'w) EditorClient \<Rightarrow> 'srv \<Rightarrow>
   fault + (('a, 'b, 'c, 'd, 'w) EditorClient \<times> 'srv)" where
  "addEntity P on c srv = m_impl_sendMessage P on c ADD_ENTITY None 0 srv"

definition mouseDown ::
  "platform \<Rightarrow> (ptr \<Rightarrow> int32 \<Rightarrow> 'srv \<Rightarrow> 'srv) \<Rightarrow> int32 \<Rightarrow> int32 \<Rightarrow> int32 \<Rightarrow>
   ('a, 'b, 'c, 'd, 'w) EditorClient \<Rightarrow> 'srv \<Rightarrow> fault + (('a, 'b, 'c, 'd, 'w) EditorClient \<times> 'srv)" where
  "mouseDown P on x y button c srv =
     (let data = concat (map (bytes_of_u32 (byte_order P)) [x, y, button]) in
      m_impl_sendMessage P on c POINTER_DOWN (Some (ptr_to data)) 12 srv)"

definition mouseUp ::
  "platform \<Rightarrow> (ptr \<Rightarrow> int32 \<Rightarrow> 'srv \<Rightarrow> 'srv) \<Rightarrow> int32 \<Rightarrow> int32 \<Rightarrow> int32 \<Rightarrow>
   ('a, 'b, 'c, 'd, 'w) EditorClient \<Rightarrow> 'srv \<Rightarrow> fault + (('a, 'b, 'c, 'd, 'w) EditorClient \<times> 'srv)" where
  "mouseUp P on x y button c srv =
     (let data = concat (map (bytes_of_u32 (byte_order P)) [x, y, button]) in
      m_impl_sendMessage P on c POINTER_UP (Some (ptr_to data)) 12 srv)"

definition mouseMove ::
  "platform \<Rightarrow> (ptr \<Rightarrow> int32 \<Rightarrow> 'srv \<Rightarrow> 'srv) \<Rightarrow> int32 \<Rightarrow> int32 \<Rightarrow> int32 \<Rightarrow> int32 \<Rightarrow> int32 \<Rightarrow>
   ('a, 'b, 'c, 'd, 'w) EditorClient \<Rightarrow> 'srv \<Rightarrow> fault + (('a, 'b, 'c, 'd, 'w) EditorClient \<times> 'srv)" where
  "mouseMove P on x y dx dy flags c srv =
     (let data = concat (map (bytes_of_u32 (byte_order P)) [x, y, dx, dy, flags]) in
      m_impl_sendMessage P on c POINTER_MOVE (Some (ptr_to data)) 20 srv)"

definition loadUniverse ::
  "platform \<Rightarrow> (ptr \<Rightarrow> int32 \<Rightarrow> 'srv \<Rightarrow> 'srv) \<Rightarrow> string \<Rightarrow>
   ('a, 'b, 'c, 'd, 'w) EditorClient \<Rightarrow> 'srv \<Rightarrow> fault + (('a, 'b, 'c, 'd, 'w) EditorClient \<times> 'srv)" where
  "loadUniverse P on path c srv =
     (case m_impl c of
        None \<Rightarrow> Inl NullPointer
      | Some impl \<Rightarrow>
          (let c = c\<lparr>m_impl := Some (impl\<lparr>m_universe_path := path\<rparr>)\<rparr> in
           m_impl_sendMessage P on c LOAD (Some (ptr_to (c_str path))) (of_nat (strlen path) + 1) srv))"

definition setWireframe ::
  "platform \<Rightarrow> (ptr \<Rightarrow> int32 \<Rightarrow> 'srv \<Rightarrow> 'srv) \<Rightarrow> bool \<Rightarrow>
   ('a, 'b, 'c, 'd, 'w) EditorClient \<Rightarrow> 'srv \<Rightarrow> fault + (('a, 'b, 'c, 'd, 'w) EditorClient \<times> 'srv)" where
  "setWireframe P on is_wireframe c srv =
     (let data = (if is_wireframe then 1 else 0) in
      m_impl_sendMessage P on c SET_WIREFRAME (Some (ptr_to (bytes_of_u32 (byte_order P) data))) 4 srv)"

definition newUniverse ::
  "platform \<Rightarrow> (ptr \<Rightarrow> int32 \<Rightarrow> 'srv \<Rightarrow> 'srv) \<Rightarrow>
   ('a, 'b, 'c, 'd, 'w) EditorClient \<Rightarrow> 'srv \<Rightarrow> fault + (('a, 'b, 'c, 'd, 'w) EditorClient \<times> 'srv)" where
  "newUniverse P on c srv =
     (case m_impl c of
        None \<Rightarrow> Inl NullPointer
      | Some impl \<Rightarrow>
          (let c = c\<lparr>m_impl := Some (impl\<lparr>m_universe_path := []\<rparr>)\<rparr> in
           m_impl_sendMessage P on c NEW_UNIVERSE None 0 srv))"

definition setAnimableTime ::
  "platform \<Rightarrow> (ptr \<Rightarrow> int32 \<Rightarrow> 'srv \<Rightarrow> 'srv) \<Rightarrow> int32 \<Rightarrow>
   ('a, 'b, 'c, 'd, 'w) EditorClient \<Rightarrow> 'srv \<Rightarrow> fault + (('a, 'b, 'c, 'd, 'w) EditorClient \<times> 'srv)" where
  "setAnimableTime P on time c srv =
     m_impl_sendMessage P on c SET_ANIMABLE_TIME (Some (ptr_to (bytes_of_u32 (byte_order P) time))) 4 srv"

definition playPausePreviewAnimable ::
  "platform \<Rightarrow> (ptr \<Rightarrow> int32 \<Rightarrow> 'srv \<Rightarrow> 'srv) \<Rightarrow>
   ('a, 'b, 'c, 'd, 'w) EditorClient \<Rightarrow> 'srv \<Rightarrow> fault + (('a, 'b, 'c, 'd, 'w) EditorClient \<times> 'srv)" where
  "playPausePreviewAnimable P on c srv = m_impl_sendMessage P on c PLAY_PAUSE_ANIMABLE None 0 srv"

definition setEntityPosition ::
  "platform \<Rightarrow> (ptr \<Rightarrow> int32 \<Rightarrow> 'srv \<Rightarrow> 'srv) \<Rightarrow> int32 \<Rightarrow> Vec3 \<Rightarrow>
   ('a, 'b, 'c, 'd, 'w) EditorClient \<Rightarrow> 'srv \<Rightarrow> fault + (('a, 'b, 'c, 'd, 'w) EditorClient \<times> 'srv)" where
  "setEntityPosition P on entity position c srv =
     (let data = bytes_of_u32 (byte_order P) entity @ bytes_of_Vec3 (byte_order P) position in
      m_impl_sendMessage P on c SET_POSITION (Some (ptr_to data)) (4 + 12) srv)"

definition getUniversePath :: "('a, 'b, 'c, 'd, 'w) EditorClient \<Rightarrow> fault + string" where
  "getUniversePath c =
     (case m_impl c of None \<Rightarrow> Inl NullPointer | Some impl \<Rightarrow> Inr (m_universe_path impl))"

definition saveUniverse ::
  "platform \<Rightarrow> (ptr \<Rightarrow> int32 \<Rightarrow> 'srv \<Rightarrow> 'srv) \<Rightarrow> string \<Rightarrow>
   ('a, 'b, 'c, 'd, 'w) EditorClient \<Rightarrow> 'srv \<Rightarrow> fault + (('a, 'b, 'c, 'd, 'w) EditorClient \<times> 'srv)" where
  "saveUniverse P on path c srv =
     (case m_impl c of
        None \<Rightarrow> Inl NullPointer
      | Some impl \<Rightarrow>
          (let c = c\<lparr>m_impl := Some (impl\<lparr>m_universe_path := path\<rparr>)\<rparr> in
           m_impl_sendMessage P on c SAVE (Some (ptr_to (c_str path))) (of_nat (strlen path) + 1) srv))"

definition navigate ::
  "platform \<Rightarrow> (ptr \<Rightarrow> int32 \<Rightarrow> 'srv \<Rightarrow> 'srv) \<Rightarrow> float32 \<Rightarrow> float32 \<Rightarrow> float32 \<Rightarrow>
   ('a, 'b, 'c, 'd, 'w) EditorClient \<Rightarrow> 'srv \<Rightarrow> fault + (('a, 'b, 'c, 'd, 'w) EditorClient \<times> 'srv)" where
  "navigate P on forward right speed c srv =
     (let data = bytes_of_u32 (byte_order P) forward @ bytes_of_u32 (byte_order P) right
                   @ bytes_of_u32 (byte_order P) speed in
      m_impl_sendMessage P on c MOVE_CAMERA (Some (ptr_to data)) 12 srv)"

text \<open>
  \<^verbatim>\<open>setComponentProperty\<close> builds its payload in a \<^verbatim>\<open>static Blob\<close>, which lives on
  between the calls: it is passed in and returned.
\<close>

definition setComponentProperty ::
  "platform \<Rightarrow> (ptr \<Rightarrow> int32 \<Rightarrow> 'srv \<Rightarrow> 'srv) \<Rightarrow> string \<Rightarrow> string \<Rightarrow> ptr \<Rightarrow> int32 \<Rightarrow>
   ('a, 'b, 'c, 'd, 'w) EditorClient \<Rightarrow> Blob \<Rightarrow> 'srv \<Rightarrow>
   fault + (('a, 'b, 'c, 'd, 'w) EditorClient \<times> Blob \<times> 'srv)" where
  "setComponentProperty P on component property val len c stream srv =
     (let stream = Blob_clearBuffer stream;
          tmp = crc32 component;
          stream = Blob_write stream (bytes_of_u32 (byte_order P) tmp);
          tmp = crc32 property;
          stream = Blob_write stream (bytes_of_u32 (byte_order P) tmp);
          stream = Blob_write stream (bytes_of_u32 (byte_order P) len)
      in case region val len of
           Inl f \<Rightarrow> Inl f
         | Inr bs \<Rightarrow>
             (let stream = Blob_write stream bs in
              case m_impl_sendMessage P on c PROPERTY_SET (Some (Blob_getBuffer stream))
                     (Blob_getBufferSize stream) srv of
                Inl f \<Rightarrow> Inl f
              | Inr (c', srv') \<Rightarrow> Inr (c', stream, srv')))"

definition requestProperties ::
  "platform \<Rightarrow> (ptr \<Rightarrow> int32 \<Rightarrow> 'srv \<Rightarrow> 'srv) \<Rightarrow> uint32 \<Rightarrow>
   ('a, 'b, 'c, 'd, 'w) EditorClient \<Rightarrow> 'srv \<Rightarrow> fault + (('a, 'b, 'c, 'd, 'w) EditorClient \<times> 'srv)" where
  "requestProperties P on type_crc c srv =
     m_impl_sendMessage P on c GET_PROPERTIES (Some (ptr_to (bytes_of_u32 (byte_order P) type_crc))) 4 srv"

section \<open>The command table of the specification\<close>

text \<open>
  The public command operations, one constructor for each with its arguments, and
  \<open>emit\<close>, which calls the operation a command names. The static stream of
  \<open>setComponentProperty\<close> is part of the state of every call; only that operation
  touches it.
\<close>

datatype command =
    LookAtSelected
  | AddComponent uint32
  | ToggleGameMode
  | AddEntity
  | MouseDown int32 int32 int32
  | MouseUp int32 int32 int32
  | MouseMove int32 int32 int32 int32 int32
  | LoadUniverse string
  | SetWireframe bool
  | NewUniverse
  | SetAnimableTime int32
  | PlayPausePreviewAnimable
  | SetEntityPosition int32 Vec3
  | SaveUniverse string
  | Navigate float32 float32 float32
  | SetComponentProperty string string ptr int32
  | RequestProperties uint32

definition keep_stream :: "Blob \<Rightarrow> fault + ('c \<times> 'srv) \<Rightarrow> fault + ('c \<times> Blob \<times> 'srv)" where
  "keep_stream stream r = (case r of Inl f \<Rightarrow> Inl f | Inr (c, srv) \<Rightarrow> Inr (c, stream, srv))"

fun emit ::
  "platform \<Rightarrow> (ptr \<Rightarrow> int32 \<Rightarrow> 'srv \<Rightarrow> 'srv) \<Rightarrow> command \<Rightarrow>
   ('a, 'b, 'c, 'd, 'w) EditorClient \<Rightarrow> Blob \<Rightarrow> 'srv \<Rightarrow>
   fault + (('a, 'b, 'c, 'd, 'w) EditorClient \<times> Blob \<times> 'srv)" where
  "emit P on LookAtSelected c stream srv = keep_stream stream (lookAtSelected P on c srv)"
| "emit P on (AddComponent t) c stream srv = keep_stream stream (addComponent P on t c srv)"
| "emit P on ToggleGameMode c stream srv = keep_stream stream (toggleGameMode P on c srv)"
| "emit P on AddEntity c stream srv = keep_stream stream (addEntity P on c srv)"
| "emit P on (MouseDown x y button) c stream srv = keep_stream stream (mouseDown P on x y button c srv)"
| "emit P on (MouseUp x y button) c stream srv = keep_stream stream (mouseUp P on x y button c srv)"
| "emit P on (MouseMove x y dx dy flags) c stream srv =
     keep_stream stream (mouseMove P on x y dx dy flags c srv)"
| "emit P on (LoadUniverse path) c stream srv = keep_stream stream (loadUniverse P on path c srv)"
| "emit P on (SetWireframe is_wireframe) c stream srv =
     keep_stream stream (setWireframe P on is_wireframe c srv)"
| "emit P on NewUniverse c stream srv = keep_stream stream (newUniverse P on c srv)"
| "emit P on (SetAnimableTime t) c stream srv = keep_stream stream (setAnimableTime P on t c srv)"
| "emit P on PlayPausePreviewAnimable c stream srv =
     keep_stream stream (playPausePreviewAnimable P on c srv)"
| "emit P on (SetEntityPosition entity position) c stream srv =
     keep_stream stream (setEntityPosition P on entity position c srv)"
| "emit P on (SaveUniverse path) c stream srv = keep_stream stream (saveUniverse P on path c srv)"
| "emit P on (Navigate forward right speed) c stream srv =
     keep_stream stream (navigate P on forward right speed c srv)"
| "emit P on (SetComponentProperty component property val len) c stream srv =
     setComponentProperty P on component property val len c stream srv"
| "emit P on (RequestProperties type_crc) c stream srv =
     keep_stream stream (requestProperties P on type_crc c srv)"

text \<open>
  What the specification says each command puts on the wire (the table of section 4.2),
  written from its words and not from the source: the tag of the command, and its payload.
\<close>

fun command_tag :: "command \<Rightarrow> ClientMessageType" where
  "command_tag LookAtSelected = LOOK_AT_SELECTED"
| "command_tag (AddComponent t) = ADD_COMPONENT"
| "command_tag ToggleGameMode = TOGGLE_GAME_MODE"
| "command_tag AddEntity = ADD_ENTITY"
| "command_tag (MouseDown x y button) = POINTER_DOWN"
| "command_tag (MouseUp x y button) = POINTER_UP"
| "command_tag (MouseMove x y dx dy flags) = POINTER_MOVE"
| "command_tag (LoadUniverse path) = LOAD"
| "command_tag (SetWireframe is_wireframe) = SET_WIREFRAME"
| "command_tag NewUniverse = NEW_UNIVERSE"
| "command_tag (SetAnimableTime t) = SET_ANIMABLE_TIME"
| "command_tag PlayPausePreviewAnimable = PLAY_PAUSE_ANIMABLE"
| "command_tag (SetEntityPosition entity position) = SET_POSITION"
| "command_tag (SaveUniverse path) = SAVE"
| "command_tag (Navigate forward right speed) = MOVE_CAMERA"
| "command_tag (SetComponentProperty component property val len) = PROPERTY_SET"
| "command_tag (RequestProperties type_crc) = GET_PROPERTIES"

fun spec_payload :: "endian \<Rightarrow> command \<Rightarrow> byte list" where
  "spec_payload e LookAtSelected = []"
| "spec_payload e (AddComponent t) = bytes_of_u32 e t"
| "spec_payload e ToggleGameMode = []"
| "spec_payload e AddEntity = []"
| "spec_payload e (MouseDown x y button) =
     bytes_of_u32 e x @ bytes_of_u32 e y @ bytes_of_u32 e button"
| "spec_payload e (MouseUp x y button) =
     bytes_of_u32 e x @ bytes_of_u32 e y @ bytes_of_u32 e button"
| "spec_payload e (MouseMove x y dx dy flags) =
     bytes_of_u32 e x @ bytes_of_u32 e y @ bytes_of_u32 e dx @ bytes_of_u32 e dy @ bytes_of_u32 e flags"
| "spec_payload e (LoadUniverse path) = map byte_of_char path @ [0]"
| "spec_payload e (SetWireframe is_wireframe) = bytes_of_u32 e (if is_wireframe then 1 else 0)"
| "spec_payload e NewUniverse = []"
| "spec_payload e (SetAnimableTime t) = bytes_of_u32 e t"
| "spec_payload e PlayPausePreviewAnimable = []"
| "spec_payload e (SetEntityPosition entity position) =
     bytes_of_u32 e entity @ bytes_of_u32 e (vec_x position) @ bytes_of_u32 e (vec_y position)
       @ bytes_of_u32 e (vec_z position)"
| "spec_payload e (SaveUniverse path) = map byte_of_char path @ [0]"
| "spec_payload e (Navigate forward right speed) =
     bytes_of_u32 e forward @ bytes_of_u32 e right @ bytes_of_u32 e speed"
| "spec_payload e (SetComponentProperty component property val len) =
     bytes_of_u32 e (crc32 component) @ bytes_of_u32 e (crc32 property) @ bytes_of_u32 e len
       @ map val [0..<nat (sint len)]"
| "spec_payload e (RequestProperties type_crc) = bytes_of_u32 e type_crc"

definition framed :: "platform \<Rightarrow> command \<Rightarrow> byte list" where
  "framed P cmd =
     bytes_of_u32 (byte_order P) (ClientMessageType_value P (command_tag cmd))
       @ spec_payload (byte_order P) cmd"

text \<open>
  The sizes of the source are 32-bit signed integers. A command fits when the sizes the
  source computes for it do: a path with its terminator and the tag, and the value of a
  property with the three words before it and the tag.
\<close>

fun command_fits :: "command \<Rightarrow> bool" where
  "command_fits (LoadUniverse path) = (length path + 5 < 2 ^ 31)"
| "command_fits (SaveUniverse path) = (length path + 5 < 2 ^ 31)"
| "command_fits (SetComponentProperty component property val len) =
     (0 \<le> sint len \<and> sint len + 16 < 2 ^ 31)"
| "command_fits cmd = True"

text \<open>
  A run of commands, one after the other on the state the one before left; the first
  fault ends it.
\<close>

fun emit_all ::
  "platform \<Rightarrow> (ptr \<Rightarrow> int32 \<Rightarrow> 'srv \<Rightarrow> 'srv) \<Rightarrow> command list \<Rightarrow>
   ('a, 'b, 'c, 'd, 'w) EditorClient \<Rightarrow> Blob \<Rightarrow> 'srv \<Rightarrow>
   fault + (('a, 'b, 'c, 'd, 'w) EditorClient \<times> Blob \<times> 'srv)" where
  "emit_all P on [] c stream srv = Inr (c, stream, srv)"
| "emit_all P on (cmd # cmds) c stream srv =
     (case emit P on cmd c stream srv of
        Inl f \<Rightarrow> Inl f
      | Inr (c', stream', srv') \<Rightarrow> emit_all P on cmds c' stream' srv')"

text \<open>The tag a message starts with: the 32-bit integer in the first four bytes at \<open>data\<close>.\<close>

definition leading_tag :: "platform \<Rightarrow> ptr \<Rightarrow> int32" where
  "leading_tag P data = u32_of_bytes (byte_order P) (map data [0..<4])"

text \<open>The stream as \<open>EditorClientImpl_onMessage\<close> hands it to an event's \<open>read\<close>.\<close>

definition stream_after_tag :: "ptr \<Rightarrow> int32 \<Rightarrow> Blob" where
  "stream_after_tag data sz = \<lparr>m_buffer = [], m_data = data, m_size = sz, m_pos = 4\<rparr>"

section \<open>A test bench\<close>

text \<open>
  Concrete collaborators for running the model: a little-endian platform with the tags
  numbered from 1, a server that records what each call of its \<open>onMessage\<close> hands it,
  listeners that record their calls, and events read with \<open>Blob_read\<close> in the shapes of
  section 4.3 (a position event is an entity id and a position, a selection event an
  entity id; a log event and a property list are kept as the bytes the view has left).
\<close>

fun test_client_tag :: "ClientMessageType \<Rightarrow> uint32" where
  "test_client_tag POINTER_DOWN = 1"
| "test_client_tag POINTER_MOVE = 2"
| "test_client_tag POINTER_UP = 3"
| "test_client_tag PROPERTY_SET = 4"
| "test_client_tag MOVE_CAMERA = 5"
| "test_client_tag SAVE = 6"
| "test_client_tag LOAD = 7"
| "test_client_tag ADD_COMPONENT = 8"
| "test_client_tag GET_PROPERTIES = 9"
| "test_client_tag ADD_ENTITY = 10"
| "test_client_tag TOGGLE_GAME_MODE = 11"
| "test_client_tag SET_POSITION = 12"
| "test_client_tag SET_WIREFRAME = 13"
| "test_client_tag NEW_UNIVERSE = 14"
| "test_client_tag LOOK_AT_SELECTED = 15"
| "test_client_tag SET_ANIMABLE_TIME = 16"
| "test_client_tag PLAY_PAUSE_ANIMABLE = 17"

fun test_server_tag :: "ServerMessageType \<Rightarrow> int32" where
  "test_server_tag ENTITY_SELECTED = 1"
| "test_server_tag PROPERTY_LIST = 2"
| "test_server_tag ENTITY_POSITION = 3"
| "test_server_tag LOG_MESSAGE = 4"

definition test_platform :: platform where
  "test_platform = \<lparr>byte_order = LittleEndian, ClientMessageType_value = test_client_tag,
     ServerMessageType_value = test_server_tag\<rparr>"

definition recording_server :: "ptr \<Rightarrow> int32 \<Rightarrow> (fault + byte list) list \<Rightarrow> (fault + byte list) list" where
  "recording_server data sz received = received @ [region data sz]"

definition Blob_remaining :: "Blob \<Rightarrow> byte list" where
  "Blob_remaining b = map (m_data b) [m_pos b..<nat (sint (m_size b))]"

definition read_position :: "endian \<Rightarrow> Blob \<Rightarrow> int32 \<times> float32 \<times> float32 \<times> float32" where
  "read_position e s0 =
     (case Blob_read_int32 e s0 of (entity, s1) \<Rightarrow>
      case Blob_read_int32 e s1 of (px, s2) \<Rightarrow>
      case Blob_read_int32 e s2 of (py, s3) \<Rightarrow>
      case Blob_read_int32 e s3 of (pz, s4) \<Rightarrow> (entity, px, py, pz))"

definition test_events :: "(int32 \<times> float32 \<times> float32 \<times> float32, int32, byte list, byte list) events" where
  "test_events = \<lparr>EntityPositionEvent_read = read_position LittleEndian,
     EntitySelectedEvent_read = (\<lambda>s. fst (Blob_read_int32 LittleEndian s)),
     LogEvent_read = Blob_remaining,
     PropertyListEvent_read = Blob_remaining\<rparr>"

datatype call =
    PositionCall nat "int32 \<times> float32 \<times> float32 \<times> float32"
  | SelectedCall nat int32
  | LogCall nat "byte list"
  | PropertyListCall nat "byte list"

definition position_listener :: "nat \<Rightarrow> (int32 \<times> float32 \<times> float32 \<times> float32, call list) delegate" where
  "position_listener i = (\<lambda>msg calls. (msg, calls @ [PositionCall i msg]))"

definition selected_listener :: "nat \<Rightarrow> (int32, call list) delegate" where
  "selected_listener i = (\<lambda>msg calls. (msg, calls @ [SelectedCall i msg]))"

definition log_listener :: "nat \<Rightarrow> (byte list, call list) delegate" where
  "log_listener i = (\<lambda>msg calls. (msg, calls @ [LogCall i msg]))"

definition property_list_listener :: "nat \<Rightarrow> (byte list, call list) delegate" where
  "property_list_listener i = (\<lambda>msg calls. (msg, calls @ [PropertyListCall i msg]))"

text \<open>The listener that a recorded call names.\<close>

fun call_listener :: "call \<Rightarrow> nat" where
  "call_listener (PositionCall i msg) = i"
| "call_listener (SelectedCall i msg) = i"
| "call_listener (LogCall i msg) = i"
| "call_listener (PropertyListCall i msg) = i"

type_synonym test_client =
  "(int32 \<times> float32 \<times> float32 \<times> float32, int32, byte list, byte list, call list) EditorClient"

text \<open>A client after \<open>create\<close>, and one with three listeners bound for each event kind.\<close>

definition created_client :: test_client where
  "created_client = snd (create ''base'' \<lparr>m_impl = None\<rparr>)"

definition listening_impl ::
  "(int32 \<times> float32 \<times> float32 \<times> float32, int32, byte list, byte list, call list) EditorClientImpl" where
  "listening_impl =
     \<lparr>m_base_path = ''base'', m_universe_path = ''a.unv'',
        m_entity_position_changed =
          DelegateList_bind (DelegateList_bind (DelegateList_bind [] (position_listener 1))
            (position_listener 2)) (position_listener 3),
        m_entity_selected =
          DelegateList_bind (DelegateList_bind (DelegateList_bind [] (selected_listener 1))
            (selected_listener 2)) (selected_listener 3),
        m_message_logged =
          DelegateList_bind (DelegateList_bind (DelegateList_bind [] (log_listener 1))
            (log_listener 2)) (log_listener 3),
        m_property_list_received =
          DelegateList_bind (DelegateList_bind (DelegateList_bind [] (property_list_listener 1))
            (property_list_listener 2)) (property_list_listener 3)\<rparr>"

definition listening_client :: test_client where
  "listening_client = \<lparr>m_impl = Some listening_impl\<rparr>"

text \<open>Memory behind a buffer, for the messages that end early: every byte is \<open>0xAA\<close>.\<close>

definition garbage :: ptr where
  "garbage = (\<lambda>i. 0xAA)"

section \<open>Bytes, pointers and sizes\<close>

lemma length_le_bytes: "length (le_bytes w) = 4"
  by (simp add: le_bytes_def)

lemma length_bytes_of_u32: "length (bytes_of_u32 e w) = 4"
  by (cases e) (simp_all add: bytes_of_u32_def length_le_bytes)

lemma le_value_le_bytes: "le_value (le_bytes w) = w"
proof (rule bit_word_eqI)
  fix n :: nat
  assume "n < LENGTH(32)"
  then have n: "n < 32" by simp
  consider "n < 8" | "8 \<le> n" "n < 16" | "16 \<le> n" "n < 24" | "24 \<le> n" "n < 32"
    using n by linarith
  then show "bit (le_value (le_bytes w)) n = bit w n"
  proof cases
    case 1 then show ?thesis by (auto simp add: le_bytes_def bit_simps)
  next
    case 2 then show ?thesis by (auto simp add: le_bytes_def bit_simps)
  next
    case 3 then show ?thesis by (auto simp add: le_bytes_def bit_simps)
  next
    case 4 then show ?thesis by (auto simp add: le_bytes_def bit_simps)
  qed
qed

lemma u32_of_bytes_bytes_of_u32: "u32_of_bytes e (bytes_of_u32 e w) = w"
  by (cases e) (simp_all add: u32_of_bytes_def bytes_of_u32_def le_value_le_bytes)

lemma map_ptr_to: "map (ptr_to bs) [0..<length bs] = bs"
  by (simp add: ptr_to_def map_nth)

lemma map_ptr_to_eq: "n = length bs \<Longrightarrow> map (ptr_to bs) [0..<n] = bs"
  by (simp add: map_ptr_to)

lemma sint_of_nat_small: "n < 2 ^ 31 \<Longrightarrow> sint (of_nat n :: 32 word) = int n"
proof -
  assume n: "n < 2 ^ 31"
  have "sint (of_nat n :: 32 word) = sint (word_of_int (int n) :: 32 word)" by simp
  also have "\<dots> = signed_take_bit 31 (int n)" by (simp only: sint_sbintrunc') simp
  also have "\<dots> = int n" using n by (simp add: signed_take_bit_int_eq_self)
  finally show ?thesis .
qed

lemma region_ptr_to: "length bs < 2 ^ 31 \<Longrightarrow> region (ptr_to bs) (of_nat (length bs)) = Inr bs"
  by (simp add: region_def sint_of_nat_small map_ptr_to)

lemma region_ptr_to_sint: "sint sz = int (length bs) \<Longrightarrow> region (ptr_to bs) sz = Inr bs"
  by (simp add: region_def map_ptr_to)

lemma region_nonneg: "0 \<le> sint sz \<Longrightarrow> region p sz = Inr (map p [0..<nat (sint sz)])"
  by (simp add: region_def)

lemma sint_strlen_plus_1:
  "length path + 1 < 2 ^ 31 \<Longrightarrow> sint (of_nat (strlen path) + 1 :: 32 word) = int (length (c_str path))"
proof -
  assume a: "length path + 1 < 2 ^ 31"
  have "(of_nat (strlen path) + 1 :: 32 word) = of_nat (length path + 1)"
    by (simp add: strlen_def)
  moreover have "sint (of_nat (length path + 1) :: 32 word) = int (length path + 1)"
    using a by (rule sint_of_nat_small)
  ultimately show ?thesis by (simp add: c_str_def add.commute)
qed

lemma map_mem_at_prefix: "n \<le> length bs \<Longrightarrow> map (mem_at bs rest) [0..<n] = take n bs"
  by (auto intro!: nth_equalityI simp: mem_at_def)

section \<open>What each operation sends\<close>

lemma sendMessage_None:
  "sendMessage P on t None sz srv =
     Inr (on (ptr_to (bytes_of_u32 (byte_order P) t)) (of_nat (length (bytes_of_u32 (byte_order P) t))) srv)"
  by (simp add: sendMessage_def Blob_write_def Blob_new_def Blob_getBuffer_def Blob_getBufferSize_def)

lemma sendMessage_Some:
  "region p sz = Inr bs \<Longrightarrow>
   sendMessage P on t (Some p) sz srv =
     Inr (on (ptr_to (bytes_of_u32 (byte_order P) t @ bs))
            (of_nat (length (bytes_of_u32 (byte_order P) t @ bs))) srv)"
  by (simp add: sendMessage_def Blob_write_def Blob_new_def Blob_getBuffer_def Blob_getBufferSize_def)

lemma m_impl_sendMessage_None:
  "m_impl c = Some impl \<Longrightarrow>
   m_impl_sendMessage P on c T None sz srv =
     Inr (c, on (ptr_to (bytes_of_u32 (byte_order P) (ClientMessageType_value P T)))
               (of_nat (length (bytes_of_u32 (byte_order P) (ClientMessageType_value P T)))) srv)"
  by (simp add: m_impl_sendMessage_def sendMessage_None)

lemma m_impl_sendMessage_Some:
  "m_impl c = Some impl \<Longrightarrow> region p sz = Inr bs \<Longrightarrow>
   m_impl_sendMessage P on c T (Some p) sz srv =
     Inr (c, on (ptr_to (bytes_of_u32 (byte_order P) (ClientMessageType_value P T) @ bs))
               (of_nat (length (bytes_of_u32 (byte_order P) (ClientMessageType_value P T) @ bs))) srv)"
  by (simp add: m_impl_sendMessage_def sendMessage_Some)

lemma m_impl_sendMessage_object:
  "m_impl c = Some impl \<Longrightarrow> sint sz = int (length bs) \<Longrightarrow>
   m_impl_sendMessage P on c T (Some (ptr_to bs)) sz srv =
     Inr (c, on (ptr_to (bytes_of_u32 (byte_order P) (ClientMessageType_value P T) @ bs))
               (of_nat (length (bytes_of_u32 (byte_order P) (ClientMessageType_value P T) @ bs))) srv)"
  by (rule m_impl_sendMessage_Some) (simp_all add: region_ptr_to_sint)

lemma lookAtSelected_sends:
  "m_impl c = Some impl \<Longrightarrow>
   lookAtSelected P on c srv =
     Inr (c, on (ptr_to (framed P LookAtSelected)) (of_nat (length (framed P LookAtSelected))) srv)"
  by (simp add: lookAtSelected_def framed_def m_impl_sendMessage_None)

lemma addComponent_sends:
  "m_impl c = Some impl \<Longrightarrow>
   addComponent P on t c srv =
     Inr (c, on (ptr_to (framed P (AddComponent t))) (of_nat (length (framed P (AddComponent t)))) srv)"
  by (simp add: addComponent_def framed_def m_impl_sendMessage_object length_bytes_of_u32)

lemma toggleGameMode_sends:
  "m_impl c = Some impl \<Longrightarrow>
   toggleGameMode P on c srv =
     Inr (c, on (ptr_to (framed P ToggleGameMode)) (of_nat (length (framed P ToggleGameMode))) srv)"
  by (simp add: toggleGameMode_def framed_def m_impl_sendMessage_None)

lemma addEntity_sends:
  "m_impl c = Some impl \<Longrightarrow>
   addEntity P on c srv =
     Inr (c, on (ptr_to (framed P AddEntity)) (of_nat (length (framed P AddEntity))) srv)"
  by (simp add: addEntity_def framed_def m_impl_sendMessage_None)

lemma mouseDown_sends:
  "m_impl c = Some impl \<Longrightarrow>
   mouseDown P on x y button c srv =
     Inr (c, on (ptr_to (framed P (MouseDown x y button))) (of_nat (length (framed P (MouseDown x y button)))) srv)"
  by (simp add: mouseDown_def framed_def m_impl_sendMessage_object length_bytes_of_u32)

lemma mouseUp_sends:
  "m_impl c = Some impl \<Longrightarrow>
   mouseUp P on x y button c srv =
     Inr (c, on (ptr_to (framed P (MouseUp x y button))) (of_nat (length (framed P (MouseUp x y button)))) srv)"
  by (simp add: mouseUp_def framed_def m_impl_sendMessage_object length_bytes_of_u32)

lemma mouseMove_sends:
  "m_impl c = Some impl \<Longrightarrow>
   mouseMove P on x y dx dy flags c srv =
     Inr (c, on (ptr_to (framed P (MouseMove x y dx dy flags))) (of_nat (length (framed P (MouseMove x y dx dy flags)))) srv)"
  by (simp add: mouseMove_def framed_def m_impl_sendMessage_object length_bytes_of_u32)

lemma loadUniverse_sends:
  "m_impl c = Some impl \<Longrightarrow> length path + 1 < 2 ^ 31 \<Longrightarrow>
   loadUniverse P on path c srv =
     Inr (c\<lparr>m_impl := Some (impl\<lparr>m_universe_path := path\<rparr>)\<rparr>,
          on (ptr_to (framed P (LoadUniverse path))) (of_nat (length (framed P (LoadUniverse path)))) srv)"
  by (simp add: loadUniverse_def framed_def m_impl_sendMessage_object sint_strlen_plus_1 c_str_def)

lemma setWireframe_sends:
  "m_impl c = Some impl \<Longrightarrow>
   setWireframe P on is_wireframe c srv =
     Inr (c, on (ptr_to (framed P (SetWireframe is_wireframe)))
               (of_nat (length (framed P (SetWireframe is_wireframe)))) srv)"
  by (simp add: setWireframe_def framed_def m_impl_sendMessage_object length_bytes_of_u32)

lemma newUniverse_sends:
  "m_impl c = Some impl \<Longrightarrow>
   newUniverse P on c srv =
     Inr (c\<lparr>m_impl := Some (impl\<lparr>m_universe_path := []\<rparr>)\<rparr>,
          on (ptr_to (framed P NewUniverse)) (of_nat (length (framed P NewUniverse))) srv)"
  by (simp add: newUniverse_def framed_def m_impl_sendMessage_None)

lemma setAnimableTime_sends:
  "m_impl c = Some impl \<Longrightarrow>
   setAnimableTime P on t c srv =
     Inr (c, on (ptr_to (framed P (SetAnimableTime t))) (of_nat (length (framed P (SetAnimableTime t)))) srv)"
  by (simp add: setAnimableTime_def framed_def m_impl_sendMessage_object length_bytes_of_u32)

lemma playPausePreviewAnimable_sends:
  "m_impl c = Some impl \<Longrightarrow>
   playPausePreviewAnimable P on c srv =
     Inr (c, on (ptr_to (framed P PlayPausePreviewAnimable))
               (of_nat (length (framed P PlayPausePreviewAnimable))) srv)"
  by (simp add: playPausePreviewAnimable_def framed_def m_impl_sendMessage_None)

lemma setEntityPosition_sends:
  "m_impl c = Some impl \<Longrightarrow>
   setEntityPosition P on entity position c srv =
     Inr (c, on (ptr_to (framed P (SetEntityPosition entity position)))
               (of_nat (length (framed P (SetEntityPosition entity position)))) srv)"
  by (simp add: setEntityPosition_def framed_def m_impl_sendMessage_object length_bytes_of_u32 bytes_of_Vec3_def)

lemma saveUniverse_sends:
  "m_impl c = Some impl \<Longrightarrow> length path + 1 < 2 ^ 31 \<Longrightarrow>
   saveUniverse P on path c srv =
     Inr (c\<lparr>m_impl := Some (impl\<lparr>m_universe_path := path\<rparr>)\<rparr>,
          on (ptr_to (framed P (SaveUniverse path))) (of_nat (length (framed P (SaveUniverse path)))) srv)"
  by (simp add: saveUniverse_def framed_def m_impl_sendMessage_object sint_strlen_plus_1 c_str_def)

lemma navigate_sends:
  "m_impl c = Some impl \<Longrightarrow>
   navigate P on forward right speed c srv =
     Inr (c, on (ptr_to (framed P (Navigate forward right speed)))
               (of_nat (length (framed P (Navigate forward right speed)))) srv)"
  by (simp add: navigate_def framed_def m_impl_sendMessage_object length_bytes_of_u32)

lemma setComponentProperty_sends:
  assumes impl: "m_impl c = Some impl" and nonneg: "0 \<le> sint len" and fits: "sint len + 16 < 2 ^ 31"
  shows "setComponentProperty P on component property val len c stream srv =
     Inr (c, stream\<lparr>m_buffer := spec_payload (byte_order P) (SetComponentProperty component property val len)\<rparr>,
          on (ptr_to (framed P (SetComponentProperty component property val len)))
               (of_nat (length (framed P (SetComponentProperty component property val len)))) srv)"
proof -
  let ?e = "byte_order P"
  let ?payload = "spec_payload ?e (SetComponentProperty component property val len)"
  have len_payload: "length ?payload = 12 + nat (sint len)"
    by (simp add: length_bytes_of_u32)
  have "int (length ?payload) < 2 ^ 31"
    using nonneg fits unfolding len_payload by simp
  then have "length ?payload < 2 ^ 31"
    by (simp only: of_nat_less_numeral_power_cancel_iff)
  then have size_ok: "sint (of_nat (length ?payload) :: 32 word) = int (length ?payload)"
    by (rule sint_of_nat_small)
  have send: "m_impl_sendMessage P on c PROPERTY_SET (Some (ptr_to ?payload)) (of_nat (length ?payload)) srv =
      Inr (c, on (ptr_to (framed P (SetComponentProperty component property val len)))
               (of_nat (length (framed P (SetComponentProperty component property val len)))) srv)"
    using m_impl_sendMessage_object [OF impl size_ok, of P on PROPERTY_SET srv]
    by (simp add: framed_def)
  let ?s = "stream\<lparr>m_buffer := ?payload\<rparr>"
  have writes: "Blob_write (Blob_write (Blob_write (Blob_write (Blob_clearBuffer stream)
        (bytes_of_u32 ?e (crc32 component))) (bytes_of_u32 ?e (crc32 property)))
        (bytes_of_u32 ?e len)) (map val [0..<nat (sint len)]) = ?s"
    by (simp add: Blob_write_def Blob_clearBuffer_def)
  have buffer: "Blob_getBuffer ?s = ptr_to ?payload"
    and buffer_size: "Blob_getBufferSize ?s = of_nat (length ?payload)"
    by (simp_all add: Blob_getBuffer_def Blob_getBufferSize_def del: spec_payload.simps)
  show ?thesis
    unfolding setComponentProperty_def Let_def region_nonneg [OF nonneg] sum.case writes
      buffer buffer_size send
    by simp
qed

lemma requestProperties_sends:
  "m_impl c = Some impl \<Longrightarrow>
   requestProperties P on type_crc c srv =
     Inr (c, on (ptr_to (framed P (RequestProperties type_crc)))
               (of_nat (length (framed P (RequestProperties type_crc)))) srv)"
  by (simp add: requestProperties_def framed_def m_impl_sendMessage_object length_bytes_of_u32)

lemma emit_sends:
  assumes impl: "m_impl c = Some impl" and fits: "command_fits cmd"
  shows "\<exists>c' stream'. emit P on cmd c stream srv =
           Inr (c', stream', on (ptr_to (framed P cmd)) (of_nat (length (framed P cmd))) srv)"
proof (cases cmd)
  case (LoadUniverse path)
  with fits have "length path + 1 < 2 ^ 31" by simp
  with LoadUniverse show ?thesis
    by (simp add: keep_stream_def loadUniverse_sends [OF impl])
next
  case (SaveUniverse path)
  with fits have "length path + 1 < 2 ^ 31" by simp
  with SaveUniverse show ?thesis
    by (simp add: keep_stream_def saveUniverse_sends [OF impl])
next
  case (SetComponentProperty component property val len)
  then show ?thesis
    using fits by (simp add: setComponentProperty_sends [OF impl] del: spec_payload.simps)
qed (simp_all add: keep_stream_def lookAtSelected_sends [OF impl] addComponent_sends [OF impl]
      toggleGameMode_sends [OF impl] addEntity_sends [OF impl] mouseDown_sends [OF impl]
      mouseUp_sends [OF impl] mouseMove_sends [OF impl] setWireframe_sends [OF impl]
      newUniverse_sends [OF impl] setAnimableTime_sends [OF impl]
      playPausePreviewAnimable_sends [OF impl] setEntityPosition_sends [OF impl]
      navigate_sends [OF impl] requestProperties_sends [OF impl])

lemma length_framed: "length (framed P cmd) = 4 + length (spec_payload (byte_order P) cmd)"
  by (simp add: framed_def length_bytes_of_u32)

lemma length_framed_fits: "command_fits cmd \<Longrightarrow> length (framed P cmd) < 2 ^ 31"
proof (cases cmd)
  case (SetComponentProperty component property val len)
  assume "command_fits cmd"
  then have "0 \<le> sint len" and "sint len + 16 < 2 ^ 31"
    using SetComponentProperty by simp_all
  then have "int (16 + nat (sint len)) < 2 ^ 31" by simp
  then have "16 + nat (sint len) < 2 ^ 31"
    by (simp only: of_nat_less_numeral_power_cancel_iff)
  then show ?thesis
    using SetComponentProperty by (simp add: length_framed length_bytes_of_u32)
qed (simp_all add: length_framed length_bytes_of_u32)

lemma m_impl_sendMessage_Inr:
  "m_impl_sendMessage P on c T data sz srv = Inr (c', srv') \<Longrightarrow> c' = c \<and> m_impl c \<noteq> None"
  by (auto simp add: m_impl_sendMessage_def split: option.splits sum.splits)

lemma emit_Inr_impl:
  assumes "emit P on cmd c stream srv = Inr (c', stream', srv')"
  shows "m_impl c' \<noteq> None"
proof (cases cmd)
  case (LoadUniverse path)
  with assms show ?thesis
    by (auto simp add: keep_stream_def loadUniverse_def split: option.splits sum.splits
        dest!: m_impl_sendMessage_Inr)
next
  case (SaveUniverse path)
  with assms show ?thesis
    by (auto simp add: keep_stream_def saveUniverse_def split: option.splits sum.splits
        dest!: m_impl_sendMessage_Inr)
next
  case NewUniverse
  with assms show ?thesis
    by (auto simp add: keep_stream_def newUniverse_def split: option.splits sum.splits
        dest!: m_impl_sendMessage_Inr)
next
  case (SetComponentProperty component property val len)
  with assms show ?thesis
    by (auto simp add: setComponentProperty_def Let_def split: sum.splits
        dest!: m_impl_sendMessage_Inr)
qed (use assms in \<open>auto simp add: keep_stream_def lookAtSelected_def addComponent_def
      toggleGameMode_def addEntity_def mouseDown_def mouseUp_def mouseMove_def setWireframe_def
      setAnimableTime_def playPausePreviewAnimable_def setEntityPosition_def navigate_def
      requestProperties_def Let_def split: sum.splits dest!: m_impl_sendMessage_Inr\<close>)

lemma emit_all_Inr_impl:
  "m_impl c \<noteq> None \<Longrightarrow> emit_all P on cmds c stream srv = Inr (c', stream', srv') \<Longrightarrow>
   m_impl c' \<noteq> None"
proof (induction cmds arbitrary: c stream srv)
  case Nil
  then show ?case by simp
next
  case (Cons cmd cmds)
  from Cons.prems(2) obtain c1 s1 srv1 where
    step: "emit P on cmd c stream srv = Inr (c1, s1, srv1)"
    and rest: "emit_all P on cmds c1 s1 srv1 = Inr (c', stream', srv')"
    by (auto split: sum.splits)
  from step have "m_impl c1 \<noteq> None" by (rule emit_Inr_impl)
  then show ?case using rest by (rule Cons.IH)
qed

section \<open>What a dispatch does\<close>

lemma Blob_read_int32_create:
  "Blob_read_int32 (byte_order P) (Blob_create Blob_new data sz) = (leading_tag P data, stream_after_tag data sz)"
  by (simp add: Blob_read_int32_def Blob_read_def Blob_create_def Blob_new_def leading_tag_def
      stream_after_tag_def)

lemma leading_tag_mem_at:
  "4 \<le> length bs \<Longrightarrow> leading_tag P (mem_at bs rest) = u32_of_bytes (byte_order P) (take 4 bs)"
  by (simp add: leading_tag_def map_mem_at_prefix)

lemma EditorClientImpl_onMessage_tag:
  "EditorClientImpl_onMessage P E data sz impl w =
     (if leading_tag P data = ServerMessageType_value P ENTITY_POSITION then
        (impl, snd (DelegateList_invoke (m_entity_position_changed impl)
                      (EntityPositionEvent_read E (stream_after_tag data sz)) w))
      else if leading_tag P data = ServerMessageType_value P ENTITY_SELECTED then
        (impl, snd (DelegateList_invoke (m_entity_selected impl)
                      (EntitySelectedEvent_read E (stream_after_tag data sz)) w))
      else if leading_tag P data = ServerMessageType_value P PROPERTY_LIST then
        (impl, snd (DelegateList_invoke (m_property_list_received impl)
                      (PropertyListEvent_read E (stream_after_tag data sz)) w))
      else if leading_tag P data = ServerMessageType_value P LOG_MESSAGE then
        (impl, snd (DelegateList_invoke (m_message_logged impl)
                      (LogEvent_read E (stream_after_tag data sz)) w))
      else (impl, w))"
  by (simp add: EditorClientImpl_onMessage_def Blob_read_int32_create Let_def)

lemma fst_EditorClientImpl_onMessage: "fst (EditorClientImpl_onMessage P E data sz impl w) = impl"
  by (simp add: EditorClientImpl_onMessage_tag)

lemma onMessage_Some:
  "m_impl c = Some impl \<Longrightarrow>
   onMessage P E data sz c w = (c, snd (EditorClientImpl_onMessage P E data sz impl w))"
proof -
  assume impl: "m_impl c = Some impl"
  have "fst (EditorClientImpl_onMessage P E data sz impl w) = impl"
    by (rule fst_EditorClientImpl_onMessage)
  then have "c\<lparr>m_impl := Some (fst (EditorClientImpl_onMessage P E data sz impl w))\<rparr> = c"
    using impl by simp
  then show ?thesis
    using impl by (simp add: onMessage_def split_beta)
qed

lemma fst_onMessage: "fst (onMessage P E data sz c w) = c"
proof (cases "m_impl c")
  case None
  then show ?thesis by (simp add: onMessage_def)
next
  case (Some impl)
  then show ?thesis by (simp add: onMessage_Some)
qed

lemma DelegateList_invoke_append:
  "DelegateList_invoke (ds @ ds') msg w =
     (case DelegateList_invoke ds msg w of (msg', w') \<Rightarrow> DelegateList_invoke ds' msg' w')"
  by (induction ds arbitrary: msg w) (simp_all split: prod.splits)

lemma DelegateList_invoke_three:
  "DelegateList_invoke (DelegateList_bind (DelegateList_bind (DelegateList_bind [] L1) L2) L3) msg w =
     (case L1 msg w of (m1, w1) \<Rightarrow> case L2 m1 w1 of (m2, w2) \<Rightarrow> L3 m2 w2)"
  by (simp add: DelegateList_bind_def split: prod.splits)

lemma onMessage_ENTITY_POSITION:
  "leading_tag P data = ServerMessageType_value P ENTITY_POSITION \<Longrightarrow>
   EditorClientImpl_onMessage P E data sz impl w =
     (impl, snd (DelegateList_invoke (m_entity_position_changed impl)
                   (EntityPositionEvent_read E (stream_after_tag data sz)) w))"
  by (simp add: EditorClientImpl_onMessage_tag)

lemma onMessage_ENTITY_SELECTED:
  "inj (ServerMessageType_value P) \<Longrightarrow>
   leading_tag P data = ServerMessageType_value P ENTITY_SELECTED \<Longrightarrow>
   EditorClientImpl_onMessage P E data sz impl w =
     (impl, snd (DelegateList_invoke (m_entity_selected impl)
                   (EntitySelectedEvent_read E (stream_after_tag data sz)) w))"
  by (auto simp add: EditorClientImpl_onMessage_tag dest: injD)

lemma onMessage_PROPERTY_LIST:
  "inj (ServerMessageType_value P) \<Longrightarrow>
   leading_tag P data = ServerMessageType_value P PROPERTY_LIST \<Longrightarrow>
   EditorClientImpl_onMessage P E data sz impl w =
     (impl, snd (DelegateList_invoke (m_property_list_received impl)
                   (PropertyListEvent_read E (stream_after_tag data sz)) w))"
  by (auto simp add: EditorClientImpl_onMessage_tag dest: injD)

lemma onMessage_LOG_MESSAGE:
  "inj (ServerMessageType_value P) \<Longrightarrow>
   leading_tag P data = ServerMessageType_value P LOG_MESSAGE \<Longrightarrow>
   EditorClientImpl_onMessage P E data sz impl w =
     (impl, snd (DelegateList_invoke (m_message_logged impl)
                   (LogEvent_read E (stream_after_tag data sz)) w))"
  by (auto simp add: EditorClientImpl_onMessage_tag dest: injD)

section \<open>The test bench, evaluated\<close>

lemma created_client_impl:
  "m_impl created_client = Some \<lparr>m_base_path = ''base'', m_universe_path = [],
     m_entity_position_changed = [], m_entity_selected = [], m_message_logged = [],
     m_property_list_received = []\<rparr>"
  by (simp add: created_client_def create_def)

lemma framed_load_foo:
  "framed test_platform (LoadUniverse ''foo.unv'') =
     [7, 0, 0, 0, 0x66, 0x6F, 0x6F, 0x2E, 0x75, 0x6E, 0x76, 0]"
  by (simp add: framed_def test_platform_def bytes_of_u32_def le_bytes_def byte_of_char_def)

lemma framed_look_at_selected:
  "framed test_platform LookAtSelected = [15, 0, 0, 0]"
  by (simp add: framed_def test_platform_def bytes_of_u32_def le_bytes_def)

lemma bench_run:
  "emit_all test_platform recording_server [LoadUniverse ''foo.unv'', LookAtSelected] created_client
     (Blob_new\<lparr>m_buffer := [0x0E, 0x03, 0x43, 0xF5, 0x80, 0x0A, 0x87, 0x2D, 4, 0, 0, 0, 0x3F, 0x80, 0, 0]\<rparr>)
     [Inr [4, 0, 0, 0, 0x0E, 0x03, 0x43, 0xF5, 0x80, 0x0A, 0x87, 0x2D, 4, 0, 0, 0, 0x3F, 0x80, 0, 0]] =
   Inr (created_client\<lparr>m_impl := Some \<lparr>m_base_path = ''base'', m_universe_path = ''foo.unv'',
          m_entity_position_changed = [], m_entity_selected = [], m_message_logged = [],
          m_property_list_received = []\<rparr>\<rparr>,
        Blob_new\<lparr>m_buffer := [0x0E, 0x03, 0x43, 0xF5, 0x80, 0x0A, 0x87, 0x2D, 4, 0, 0, 0, 0x3F, 0x80, 0, 0]\<rparr>,
        [Inr [4, 0, 0, 0, 0x0E, 0x03, 0x43, 0xF5, 0x80, 0x0A, 0x87, 0x2D, 4, 0, 0, 0, 0x3F, 0x80, 0, 0],
         Inr [7, 0, 0, 0, 0x66, 0x6F, 0x6F, 0x2E, 0x75, 0x6E, 0x76, 0],
         Inr [15, 0, 0, 0]])"
proof -
  have len: "length ''foo.unv'' + 1 < (2 :: nat) ^ 31" by simp
  have r1: "region (ptr_to [7, 0, 0, 0, 0x66, 0x6F, 0x6F, 0x2E, 0x75, 0x6E, 0x76, 0]) 12 =
      Inr [7, 0, 0, 0, 0x66, 0x6F, 0x6F, 0x2E, 0x75, 0x6E, 0x76, 0]"
    by (rule region_ptr_to_sint) simp
  have r2: "region (ptr_to [15, 0, 0, 0]) 4 = Inr [15, 0, 0, 0]"
    by (rule region_ptr_to_sint) simp
  show ?thesis
    by (simp add: keep_stream_def loadUniverse_sends [OF created_client_impl len]
        lookAtSelected_sends framed_load_foo framed_look_at_selected recording_server_def r1 r2)
qed

lemma crc32_byte_unfold:
  "crc32_byte crc b = crc32_step (crc32_step (crc32_step (crc32_step (crc32_step (crc32_step (crc32_step (crc32_step (crc XOR ucast b))))))))"
  by (simp add: crc32_byte_def eval_nat_numeral)

lemma crc32_Transform: "crc32 ''Transform'' = 0xF543030E"
  by (simp add: crc32_def crc32_byte_unfold crc32_step_def byte_of_char_def)

lemma crc32_Scale: "crc32 ''Scale'' = 0x2D870A80"
  by (simp add: crc32_def crc32_byte_unfold crc32_step_def byte_of_char_def)

lemma inj_test_server_tag: "inj test_server_tag"
proof (rule injI)
  fix a b assume "test_server_tag a = test_server_tag b"
  then show "a = b" by (cases a; cases b) simp_all
qed

lemma leading_tag_unknown: "leading_tag test_platform (mem_at [9, 0, 0, 0, 1, 2, 3] garbage) = 9"
  by (simp add: leading_tag_def map_mem_at_prefix test_platform_def u32_of_bytes_def)

lemma leading_tag_position:
  "leading_tag test_platform
     (mem_at [3, 0, 0, 0, 7, 0, 0, 0, 0, 0, 0x80, 0x3F, 0, 0, 0, 0x40, 0, 0, 0x40, 0x40] garbage) = 3"
  by (simp add: leading_tag_def map_mem_at_prefix test_platform_def u32_of_bytes_def)

lemma read_position_bench:
  "read_position LittleEndian (stream_after_tag
     (mem_at [3, 0, 0, 0, 7, 0, 0, 0, 0, 0, 0x80, 0x3F, 0, 0, 0, 0x40, 0, 0, 0x40, 0x40] garbage) 20) =
   (7, 0x3F800000, 0x40000000, 0x40400000)"
  by (simp add: read_position_def stream_after_tag_def Blob_read_int32_def Blob_read_def
      mem_at_def upt_rec u32_of_bytes_def)

lemma listening_impl_position:
  "listening_impl\<lparr>m_entity_position_changed :=
     DelegateList_bind (DelegateList_bind (DelegateList_bind [] (position_listener 1))
       (position_listener 2)) (position_listener 3)\<rparr> = listening_impl"
  by (simp add: listening_impl_def)

section \<open>The claims\<close>

subsection \<open>C1: one framed message for each command\<close>

text \<open>
  C1. Every command operation of the client, on a client that has an implementation and
  for arguments whose sizes fit the source's 32-bit sizes, returns normally after exactly
  one call of the server's \<open>onMessage\<close>: the server's state afterwards is its state
  before with \<open>onMessage\<close> applied once, whatever \<open>onMessage\<close> does. The pointer and
  the size of that call designate the bytes \<open>framed P cmd\<close>: the four bytes of the
  command's tag and right behind them the payload of the command as the table of the
  specification gives it. For \<open>lookAtSelected\<close>, \<open>toggleGameMode\<close>, \<open>addEntity\<close>,
  \<open>newUniverse\<close> and \<open>playPausePreviewAnimable\<close> the message is the four bytes of the
  tag and nothing else.
\<close>

theorem emit_one_framed_message:
  assumes "m_impl c = Some impl" and "command_fits cmd"
  shows "(\<exists>c' stream'. emit P on cmd c stream srv =
            Inr (c', stream', on (ptr_to (framed P cmd)) (of_nat (length (framed P cmd))) srv))
       \<and> region (ptr_to (framed P cmd)) (of_nat (length (framed P cmd))) = Inr (framed P cmd)
       \<and> take 4 (framed P cmd) = bytes_of_u32 (byte_order P) (ClientMessageType_value P (command_tag cmd))
       \<and> drop 4 (framed P cmd) = spec_payload (byte_order P) cmd
       \<and> framed P LookAtSelected = bytes_of_u32 (byte_order P) (ClientMessageType_value P LOOK_AT_SELECTED)
       \<and> framed P ToggleGameMode = bytes_of_u32 (byte_order P) (ClientMessageType_value P TOGGLE_GAME_MODE)
       \<and> framed P AddEntity = bytes_of_u32 (byte_order P) (ClientMessageType_value P ADD_ENTITY)
       \<and> framed P NewUniverse = bytes_of_u32 (byte_order P) (ClientMessageType_value P NEW_UNIVERSE)
       \<and> framed P PlayPausePreviewAnimable =
           bytes_of_u32 (byte_order P) (ClientMessageType_value P PLAY_PAUSE_ANIMABLE)"
proof -
  have "\<exists>c' stream'. emit P on cmd c stream srv =
            Inr (c', stream', on (ptr_to (framed P cmd)) (of_nat (length (framed P cmd))) srv)"
    using assms by (rule emit_sends)
  moreover have "region (ptr_to (framed P cmd)) (of_nat (length (framed P cmd))) = Inr (framed P cmd)"
    using assms(2) by (intro region_ptr_to length_framed_fits)
  moreover have "take 4 (framed P cmd) = bytes_of_u32 (byte_order P) (ClientMessageType_value P (command_tag cmd))"
    and "drop 4 (framed P cmd) = spec_payload (byte_order P) cmd"
    by (simp_all add: framed_def length_bytes_of_u32)
  ultimately show ?thesis
    by (simp add: framed_def)
qed

text \<open>
  On the test bench: \<open>loadUniverse("foo.unv")\<close> hands the recording server one message,
  the tag 7 and the path with its terminator; \<open>lookAtSelected\<close> one message of four bytes.
\<close>

theorem emit_one_framed_message_witness:
  "m_impl created_client = Some \<lparr>m_base_path = ''base'', m_universe_path = [],
     m_entity_position_changed = [], m_entity_selected = [], m_message_logged = [],
     m_property_list_received = []\<rparr>
   \<and> command_fits (LoadUniverse ''foo.unv'')
   \<and> (\<exists>c' stream'. emit test_platform recording_server (LoadUniverse ''foo.unv'') created_client Blob_new [] =
          Inr (c', stream', [Inr [7, 0, 0, 0, 0x66, 0x6F, 0x6F, 0x2E, 0x75, 0x6E, 0x76, 0]]))
   \<and> (\<exists>c' stream'. emit test_platform recording_server LookAtSelected created_client Blob_new [] =
          Inr (c', stream', [Inr [15, 0, 0, 0]]))"
proof -
  have fits: "command_fits (LoadUniverse ''foo.unv'')" and fits': "command_fits LookAtSelected"
    by simp_all
  note load = emit_one_framed_message [OF created_client_impl fits, of test_platform recording_server Blob_new "[]"]
  note look = emit_one_framed_message [OF created_client_impl fits', of test_platform recording_server Blob_new "[]"]
  have "recording_server (ptr_to (framed test_platform (LoadUniverse ''foo.unv'')))
          (of_nat (length (framed test_platform (LoadUniverse ''foo.unv'')))) [] =
        [Inr [7, 0, 0, 0, 0x66, 0x6F, 0x6F, 0x2E, 0x75, 0x6E, 0x76, 0]]"
    by (simp only: recording_server_def load [THEN conjunct2, THEN conjunct1] append_Nil)
      (simp only: framed_load_foo)
  with load [THEN conjunct1]
  have 1: "\<exists>c' stream'. emit test_platform recording_server (LoadUniverse ''foo.unv'') created_client Blob_new [] =
          Inr (c', stream', [Inr [7, 0, 0, 0, 0x66, 0x6F, 0x6F, 0x2E, 0x75, 0x6E, 0x76, 0]])"
    by simp
  have "recording_server (ptr_to (framed test_platform LookAtSelected))
          (of_nat (length (framed test_platform LookAtSelected))) [] = [Inr [15, 0, 0, 0]]"
    by (simp only: recording_server_def look [THEN conjunct2, THEN conjunct1] append_Nil)
      (simp only: framed_look_at_selected)
  with look [THEN conjunct1]
  have 2: "\<exists>c' stream'. emit test_platform recording_server LookAtSelected created_client Blob_new [] =
          Inr (c', stream', [Inr [15, 0, 0, 0]])"
    by simp
  show ?thesis
    using 1 2 fits created_client_impl by blast
qed

subsection \<open>C2: the payload of setComponentProperty\<close>

text \<open>
  C2. On a client that has an implementation and for a length \<open>len\<close> that is not
  negative and leaves room for the sixteen bytes before the value,
  \<open>setComponentProperty\<close> sends one message whose payload is, in this order and with
  nothing between or behind: the four bytes of \<open>crc32 component\<close>, the four bytes of
  \<open>crc32 property\<close>, the four bytes of \<open>len\<close>, and the \<open>len\<close> bytes at \<open>val\<close>.
  The payload is \<open>12 + len\<close> bytes long, and it is what the static stream holds
  afterwards.
\<close>

theorem setComponentProperty_payload:
  assumes "m_impl c = Some impl" and "0 \<le> sint len" and "sint len + 16 < 2 ^ 31"
  shows "(let e = byte_order P;
              payload = bytes_of_u32 e (crc32 component) @ bytes_of_u32 e (crc32 property)
                          @ bytes_of_u32 e len @ map val [0..<nat (sint len)];
              message = bytes_of_u32 e (ClientMessageType_value P PROPERTY_SET) @ payload
          in setComponentProperty P on component property val len c stream srv =
               Inr (c, stream\<lparr>m_buffer := payload\<rparr>, on (ptr_to message) (of_nat (length message)) srv)
           \<and> region (ptr_to message) (of_nat (length message)) = Inr message
           \<and> length payload = 12 + nat (sint len)
           \<and> take 4 payload = bytes_of_u32 e (crc32 component)
           \<and> take 4 (drop 4 payload) = bytes_of_u32 e (crc32 property)
           \<and> take 4 (drop 8 payload) = bytes_of_u32 e len
           \<and> drop 12 payload = map val [0..<nat (sint len)])"
proof -
  let ?cmd = "SetComponentProperty component property val len"
  have fits: "command_fits ?cmd"
    using assms(2,3) by simp
  have sends: "setComponentProperty P on component property val len c stream srv =
      Inr (c, stream\<lparr>m_buffer := spec_payload (byte_order P) ?cmd\<rparr>,
           on (ptr_to (framed P ?cmd)) (of_nat (length (framed P ?cmd))) srv)"
    using assms by (rule setComponentProperty_sends)
  have reg: "region (ptr_to (framed P ?cmd)) (of_nat (length (framed P ?cmd))) = Inr (framed P ?cmd)"
    using fits by (intro region_ptr_to length_framed_fits)
  show ?thesis
    using sends reg by (simp add: Let_def framed_def length_bytes_of_u32)
qed

text \<open>
  The scenario of the specification on the test bench:
  \<open>setComponentProperty("Transform", "Scale", [0x3F, 0x80, 0x00, 0x00], 4)\<close> sends the
  tag, \<open>crc32 "Transform" = 0xF543030E\<close>, \<open>crc32 "Scale" = 0x2D870A80\<close>, the length 4
  and the four bytes of the value.
\<close>

theorem setComponentProperty_payload_witness:
  "m_impl created_client = Some \<lparr>m_base_path = ''base'', m_universe_path = [],
     m_entity_position_changed = [], m_entity_selected = [], m_message_logged = [],
     m_property_list_received = []\<rparr>
   \<and> 0 \<le> sint (4 :: int32) \<and> sint (4 :: int32) + 16 < 2 ^ 31
   \<and> setComponentProperty test_platform recording_server ''Transform'' ''Scale''
         (ptr_to [0x3F, 0x80, 0x00, 0x00]) 4 created_client Blob_new [] =
       Inr (created_client,
            Blob_new\<lparr>m_buffer := [0x0E, 0x03, 0x43, 0xF5, 0x80, 0x0A, 0x87, 0x2D, 4, 0, 0, 0, 0x3F, 0x80, 0, 0]\<rparr>,
            [Inr [4, 0, 0, 0, 0x0E, 0x03, 0x43, 0xF5, 0x80, 0x0A, 0x87, 0x2D, 4, 0, 0, 0, 0x3F, 0x80, 0, 0]])"
proof -
  have nonneg: "0 \<le> sint (4 :: int32)" and fits: "sint (4 :: int32) + 16 < 2 ^ 31"
    by simp_all
  have val: "map (ptr_to [0x3F, 0x80, 0x00, 0x00]) [0..<4] = [0x3F, 0x80, 0x00, 0x00]"
    by (rule map_ptr_to_eq) simp
  note t = setComponentProperty_payload [where P = test_platform and on = recording_server
      and component = "''Transform''" and property = "''Scale''"
      and val = "ptr_to [0x3F, 0x80, 0x00, 0x00]" and stream = Blob_new and srv = "[]",
      OF created_client_impl nonneg fits]
  show ?thesis
    using t
    by (simp add: Let_def val crc32_Transform crc32_Scale created_client_impl recording_server_def
        test_platform_def bytes_of_u32_def le_bytes_def)
qed

subsection \<open>C3: a tag that is no event tag\<close>

text \<open>
  C3. When the 32-bit integer in the first four bytes of an inbound message is none of
  the four event tags, \<open>onMessage\<close> does nothing: the client and the surroundings of
  the listeners come back as they were, whatever listeners are registered, so none of
  them was called, and the result is an ordinary return.
\<close>

theorem onMessage_unrecognized_tag:
  assumes "leading_tag P data \<noteq> ServerMessageType_value P ENTITY_POSITION"
    and "leading_tag P data \<noteq> ServerMessageType_value P ENTITY_SELECTED"
    and "leading_tag P data \<noteq> ServerMessageType_value P PROPERTY_LIST"
    and "leading_tag P data \<noteq> ServerMessageType_value P LOG_MESSAGE"
  shows "onMessage P E data sz c w = (c, w)
       \<and> EditorClientImpl_onMessage P E data sz impl w = (impl, w)"
proof -
  have impl: "EditorClientImpl_onMessage P E data sz i w = (i, w)" for i :: "('a, 'b, 'c, 'd, 'e) EditorClientImpl"
    using assms by (simp add: EditorClientImpl_onMessage_tag)
  have "onMessage P E data sz c w = (c, w)"
    by (cases "m_impl c") (simp_all add: onMessage_def impl)
  with impl show ?thesis by simp
qed

text \<open>
  On the test bench: a message of seven bytes that starts with the tag 9, which is no
  event tag there, leaves the client with its twelve listeners and the record of calls
  as they were.
\<close>

theorem onMessage_unrecognized_tag_witness:
  "leading_tag test_platform (mem_at [9, 0, 0, 0, 1, 2, 3] garbage) \<noteq> ServerMessageType_value test_platform ENTITY_POSITION
   \<and> leading_tag test_platform (mem_at [9, 0, 0, 0, 1, 2, 3] garbage) \<noteq> ServerMessageType_value test_platform ENTITY_SELECTED
   \<and> leading_tag test_platform (mem_at [9, 0, 0, 0, 1, 2, 3] garbage) \<noteq> ServerMessageType_value test_platform PROPERTY_LIST
   \<and> leading_tag test_platform (mem_at [9, 0, 0, 0, 1, 2, 3] garbage) \<noteq> ServerMessageType_value test_platform LOG_MESSAGE
   \<and> onMessage test_platform test_events (mem_at [9, 0, 0, 0, 1, 2, 3] garbage) 7 listening_client [] =
       (listening_client, [])"
proof -
  have 1: "leading_tag test_platform (mem_at [9, 0, 0, 0, 1, 2, 3] garbage) \<noteq> ServerMessageType_value test_platform ENTITY_POSITION"
    and 2: "leading_tag test_platform (mem_at [9, 0, 0, 0, 1, 2, 3] garbage) \<noteq> ServerMessageType_value test_platform ENTITY_SELECTED"
    and 3: "leading_tag test_platform (mem_at [9, 0, 0, 0, 1, 2, 3] garbage) \<noteq> ServerMessageType_value test_platform PROPERTY_LIST"
    and 4: "leading_tag test_platform (mem_at [9, 0, 0, 0, 1, 2, 3] garbage) \<noteq> ServerMessageType_value test_platform LOG_MESSAGE"
    by (simp_all add: leading_tag_unknown) (simp_all add: test_platform_def)
  from onMessage_unrecognized_tag [OF 1 2 3 4, where E = test_events and sz = 7 and c = listening_client and w = "[]"]
  have "onMessage test_platform test_events (mem_at [9, 0, 0, 0, 1, 2, 3] garbage) 7 listening_client [] =
       (listening_client, [])"
    by (rule conjunct1)
  with 1 2 3 4 show ?thesis by simp
qed

subsection \<open>C4: the cached universe path\<close>

text \<open>
  C4. On a client that has an implementation and for a path that fits the 32-bit size
  the source computes for it, \<open>loadUniverse p\<close> and \<open>saveUniverse p\<close> return with
  the client's universe path set to \<open>p\<close> and nothing else of the client changed,
  whatever the server's \<open>onMessage\<close> does with the message; \<open>getUniversePath\<close> then
  gives \<open>p\<close>. \<open>newUniverse\<close> returns with the universe path empty, and
  \<open>getUniversePath\<close> then gives the empty string.
\<close>

theorem universe_path_cached:
  assumes "m_impl c = Some impl" and "length p + 1 < 2 ^ 31"
  shows "(\<exists>srv'. loadUniverse P on p c srv = Inr (c\<lparr>m_impl := Some (impl\<lparr>m_universe_path := p\<rparr>)\<rparr>, srv'))
       \<and> (\<exists>srv'. saveUniverse P on p c srv = Inr (c\<lparr>m_impl := Some (impl\<lparr>m_universe_path := p\<rparr>)\<rparr>, srv'))
       \<and> getUniversePath (c\<lparr>m_impl := Some (impl\<lparr>m_universe_path := p\<rparr>)\<rparr>) = Inr p
       \<and> (\<exists>srv'. newUniverse P on c srv = Inr (c\<lparr>m_impl := Some (impl\<lparr>m_universe_path := []\<rparr>)\<rparr>, srv'))
       \<and> getUniversePath (c\<lparr>m_impl := Some (impl\<lparr>m_universe_path := []\<rparr>)\<rparr>) = Inr []"
proof -
  have size_ok: "sint (of_nat (strlen p) + 1 :: 32 word) = int (length (c_str p))"
    using assms(2) by (rule sint_strlen_plus_1)
  have "\<exists>srv'. loadUniverse P on p c srv = Inr (c\<lparr>m_impl := Some (impl\<lparr>m_universe_path := p\<rparr>)\<rparr>, srv')"
    using assms(1) size_ok by (simp add: loadUniverse_def m_impl_sendMessage_object)
  moreover have "\<exists>srv'. saveUniverse P on p c srv = Inr (c\<lparr>m_impl := Some (impl\<lparr>m_universe_path := p\<rparr>)\<rparr>, srv')"
    using assms(1) size_ok by (simp add: saveUniverse_def m_impl_sendMessage_object)
  moreover have "\<exists>srv'. newUniverse P on c srv = Inr (c\<lparr>m_impl := Some (impl\<lparr>m_universe_path := []\<rparr>)\<rparr>, srv')"
    using assms(1) by (simp add: newUniverse_def m_impl_sendMessage_None)
  ultimately show ?thesis
    by (simp add: getUniversePath_def)
qed

text \<open>
  The scenario of the specification on the test bench: after \<open>loadUniverse("foo.unv")\<close>
  the path is \<open>"foo.unv"\<close>, after \<open>newUniverse()\<close> behind it the path is empty.
\<close>

theorem universe_path_cached_witness:
  "m_impl created_client = Some \<lparr>m_base_path = ''base'', m_universe_path = [],
     m_entity_position_changed = [], m_entity_selected = [], m_message_logged = [],
     m_property_list_received = []\<rparr>
   \<and> length ''foo.unv'' + 1 < (2 :: nat) ^ 31
   \<and> (\<exists>c1 s1. loadUniverse test_platform recording_server ''foo.unv'' created_client [] = Inr (c1, s1)
          \<and> getUniversePath c1 = Inr ''foo.unv''
          \<and> (\<exists>c2 s2. newUniverse test_platform recording_server c1 s1 = Inr (c2, s2)
                 \<and> getUniversePath c2 = Inr []))"
proof -
  let ?impl = "\<lparr>m_base_path = ''base'', m_universe_path = [],
     m_entity_position_changed = [], m_entity_selected = [], m_message_logged = [],
     m_property_list_received = []\<rparr> :: (int32 \<times> float32 \<times> float32 \<times> float32, int32, byte list, byte list, call list) EditorClientImpl"
  let ?c1 = "created_client\<lparr>m_impl := Some (?impl\<lparr>m_universe_path := ''foo.unv''\<rparr>)\<rparr>"
  have len: "length ''foo.unv'' + 1 < (2 :: nat) ^ 31" by simp
  have impl1: "m_impl ?c1 = Some (?impl\<lparr>m_universe_path := ''foo.unv''\<rparr>)" by simp
  note first = universe_path_cached [where P = test_platform and on = recording_server and srv = "[]",
      OF created_client_impl len]
  from first obtain s1 where
    load: "loadUniverse test_platform recording_server ''foo.unv'' created_client [] = Inr (?c1, s1)"
    by blast
  from first have path1: "getUniversePath ?c1 = Inr ''foo.unv''" by blast
  note second = universe_path_cached [where P = test_platform and on = recording_server and srv = s1,
      OF impl1 len]
  from second obtain s2 where
    new: "newUniverse test_platform recording_server ?c1 s1 =
            Inr (?c1\<lparr>m_impl := Some (?impl\<lparr>m_universe_path := ''foo.unv'', m_universe_path := []\<rparr>)\<rparr>, s2)"
    by blast
  from second have path2:
    "getUniversePath (?c1\<lparr>m_impl := Some (?impl\<lparr>m_universe_path := ''foo.unv'', m_universe_path := []\<rparr>)\<rparr>) = Inr []"
    by blast
  show ?thesis
    using created_client_impl len load path1 new path2 by blast
qed

subsection \<open>C5: the payload of setEntityPosition\<close>

text \<open>
  C5. On a client that has an implementation, \<open>setEntityPosition entity position\<close>
  sends one message whose payload is sixteen bytes: the first four are the bytes of
  \<open>entity\<close>, the twelve behind them the bytes of the three components of the position in
  their order. Read back as 32-bit objects, the four words of the payload are the
  entity and the three components. A component is its 32-bit pattern: the source copies
  it and never computes with it.
\<close>

theorem setEntityPosition_payload:
  assumes "m_impl c = Some impl"
  shows "(let e = byte_order P;
              payload = bytes_of_u32 e entity @ bytes_of_u32 e (vec_x position)
                          @ bytes_of_u32 e (vec_y position) @ bytes_of_u32 e (vec_z position);
              message = bytes_of_u32 e (ClientMessageType_value P SET_POSITION) @ payload
          in setEntityPosition P on entity position c srv =
               Inr (c, on (ptr_to message) (of_nat (length message)) srv)
           \<and> region (ptr_to message) (of_nat (length message)) = Inr message
           \<and> length payload = 16
           \<and> take 4 payload = bytes_of_u32 e entity
           \<and> drop 4 payload = bytes_of_u32 e (vec_x position) @ bytes_of_u32 e (vec_y position)
                                  @ bytes_of_u32 e (vec_z position)
           \<and> u32_of_bytes e (take 4 payload) = entity
           \<and> u32_of_bytes e (take 4 (drop 4 payload)) = vec_x position
           \<and> u32_of_bytes e (take 4 (drop 8 payload)) = vec_y position
           \<and> u32_of_bytes e (take 4 (drop 12 payload)) = vec_z position)"
proof -
  let ?cmd = "SetEntityPosition entity position"
  have sends: "setEntityPosition P on entity position c srv =
      Inr (c, on (ptr_to (framed P ?cmd)) (of_nat (length (framed P ?cmd))) srv)"
    using assms by (rule setEntityPosition_sends)
  have "command_fits ?cmd" by simp
  then have reg: "region (ptr_to (framed P ?cmd)) (of_nat (length (framed P ?cmd))) = Inr (framed P ?cmd)"
    by (intro region_ptr_to length_framed_fits)
  show ?thesis
    using sends reg
    by (simp add: Let_def framed_def length_bytes_of_u32 u32_of_bytes_bytes_of_u32)
qed

text \<open>
  The scenario of the specification on the test bench: entity 7 at (1.0, 2.0, 3.0),
  whose patterns are \<open>0x3F800000\<close>, \<open>0x40000000\<close> and \<open>0x40400000\<close>.
\<close>

theorem setEntityPosition_payload_witness:
  "m_impl created_client = Some \<lparr>m_base_path = ''base'', m_universe_path = [],
     m_entity_position_changed = [], m_entity_selected = [], m_message_logged = [],
     m_property_list_received = []\<rparr>
   \<and> setEntityPosition test_platform recording_server 7
         \<lparr>vec_x = 0x3F800000, vec_y = 0x40000000, vec_z = 0x40400000\<rparr> created_client [] =
       Inr (created_client,
            [Inr [12, 0, 0, 0, 7, 0, 0, 0, 0, 0, 0x80, 0x3F, 0, 0, 0, 0x40, 0, 0, 0x40, 0x40]])
   \<and> u32_of_bytes LittleEndian [7, 0, 0, 0] = 7
   \<and> u32_of_bytes LittleEndian [0, 0, 0x80, 0x3F] = 0x3F800000
   \<and> u32_of_bytes LittleEndian [0, 0, 0, 0x40] = 0x40000000
   \<and> u32_of_bytes LittleEndian [0, 0, 0x40, 0x40] = 0x40400000"
proof -
  note t = setEntityPosition_payload [where P = test_platform and on = recording_server
      and entity = 7 and position = "\<lparr>vec_x = 0x3F800000, vec_y = 0x40000000, vec_z = 0x40400000\<rparr>"
      and srv = "[]", OF created_client_impl]
  show ?thesis
    using t
    by (simp add: Let_def created_client_impl recording_server_def test_platform_def
        bytes_of_u32_def le_bytes_def u32_of_bytes_def)
qed

subsection \<open>C6: messages that end early\<close>

text \<open>
  C6, as stated, fails. On the test bench a message of four bytes that holds the tag of
  a selection event and nothing behind it is shorter than the event's layout, which
  has an entity id. \<open>onMessage\<close> returns normally all the same, with the client as it
  was, and has called the three selection listeners, 1 then 2 then 3: the source drops
  what the reads report and calls \<open>invoke\<close> right after \<open>msg.read\<close>.
\<close>

theorem onMessage_short_buffer_counterexample:
  "fst (onMessage test_platform test_events (mem_at [1, 0, 0, 0] garbage) 4 listening_client []) =
     listening_client
   \<and> map call_listener
         (snd (onMessage test_platform test_events (mem_at [1, 0, 0, 0] garbage) 4 listening_client [])) =
       [1, 2, 3]"
proof -
  have tag: "leading_tag test_platform (mem_at [1, 0, 0, 0] garbage) =
      ServerMessageType_value test_platform ENTITY_SELECTED"
    by (simp add: leading_tag_mem_at u32_of_bytes_def test_platform_def)
  have distinct: "inj (ServerMessageType_value test_platform)"
    by (simp add: test_platform_def inj_test_server_tag)
  have "map call_listener
          (snd (EditorClientImpl_onMessage test_platform test_events (mem_at [1, 0, 0, 0] garbage) 4
                  listening_impl [])) = [1, 2, 3]"
    unfolding onMessage_ENTITY_SELECTED [OF distinct tag]
    by (simp add: listening_impl_def DelegateList_bind_def selected_listener_def)
  then show ?thesis
    by (simp add: onMessage_Some [where impl = listening_impl] listening_client_def)
qed

text \<open>
  C6, amended. For every inbound byte sequence \<open>bs\<close> that holds at least the four bytes
  of the tag, with \<open>sz\<close> its length and whatever lies behind it in memory:
  \<open>EditorClientImpl_onMessage\<close> does not fail and checks no length. When the tag is the
  tag of an event kind (the tags being distinct), it calls the listeners of that kind
  with the event object as the kind's \<open>read\<close> left it, also when the sequence is
  shorter than the event's layout requires. What such an event holds, and what a
  sequence shorter than the tag does, is decided by the reads and is left open here.
\<close>

theorem onMessage_short_payload_invokes:
  assumes "inj (ServerMessageType_value P)" and "4 \<le> length bs" and "sint sz = int (length bs)"
  shows "(u32_of_bytes (byte_order P) (take 4 bs) = ServerMessageType_value P ENTITY_POSITION \<longrightarrow>
            EditorClientImpl_onMessage P E (mem_at bs rest) sz impl w =
              (impl, snd (DelegateList_invoke (m_entity_position_changed impl)
                            (EntityPositionEvent_read E (stream_after_tag (mem_at bs rest) sz)) w)))
       \<and> (u32_of_bytes (byte_order P) (take 4 bs) = ServerMessageType_value P ENTITY_SELECTED \<longrightarrow>
            EditorClientImpl_onMessage P E (mem_at bs rest) sz impl w =
              (impl, snd (DelegateList_invoke (m_entity_selected impl)
                            (EntitySelectedEvent_read E (stream_after_tag (mem_at bs rest) sz)) w)))
       \<and> (u32_of_bytes (byte_order P) (take 4 bs) = ServerMessageType_value P PROPERTY_LIST \<longrightarrow>
            EditorClientImpl_onMessage P E (mem_at bs rest) sz impl w =
              (impl, snd (DelegateList_invoke (m_property_list_received impl)
                            (PropertyListEvent_read E (stream_after_tag (mem_at bs rest) sz)) w)))
       \<and> (u32_of_bytes (byte_order P) (take 4 bs) = ServerMessageType_value P LOG_MESSAGE \<longrightarrow>
            EditorClientImpl_onMessage P E (mem_at bs rest) sz impl w =
              (impl, snd (DelegateList_invoke (m_message_logged impl)
                            (LogEvent_read E (stream_after_tag (mem_at bs rest) sz)) w)))"
proof -
  have tag: "leading_tag P (mem_at bs rest) = u32_of_bytes (byte_order P) (take 4 bs)"
    using assms(2) by (rule leading_tag_mem_at)
  show ?thesis
    using assms(1)
    by (simp add: onMessage_ENTITY_POSITION onMessage_ENTITY_SELECTED onMessage_PROPERTY_LIST
        onMessage_LOG_MESSAGE tag)
qed

text \<open>
  On the test bench: a message of eight bytes, the tag of a position event and an entity
  id, with no position behind it. The three position listeners are called, 1 then 2
  then 3, and the implementation comes back as it was.
\<close>

theorem onMessage_short_payload_invokes_witness:
  "inj (ServerMessageType_value test_platform)
   \<and> 4 \<le> length [3, 0, 0, 0, 7, 0, 0, 0 :: byte]
   \<and> sint (8 :: int32) = int (length [3, 0, 0, 0, 7, 0, 0, 0 :: byte])
   \<and> u32_of_bytes (byte_order test_platform) (take 4 [3, 0, 0, 0, 7, 0, 0, 0]) =
       ServerMessageType_value test_platform ENTITY_POSITION
   \<and> fst (EditorClientImpl_onMessage test_platform test_events
              (mem_at [3, 0, 0, 0, 7, 0, 0, 0] garbage) 8 listening_impl []) = listening_impl
   \<and> map call_listener
         (snd (EditorClientImpl_onMessage test_platform test_events
                 (mem_at [3, 0, 0, 0, 7, 0, 0, 0] garbage) 8 listening_impl [])) = [1, 2, 3]"
proof -
  have distinct: "inj (ServerMessageType_value test_platform)"
    by (simp add: test_platform_def inj_test_server_tag)
  have long: "4 \<le> length [3, 0, 0, 0, 7, 0, 0, 0 :: byte]"
    and sz: "sint (8 :: int32) = int (length [3, 0, 0, 0, 7, 0, 0, 0 :: byte])"
    by simp_all
  have tag: "u32_of_bytes (byte_order test_platform) (take 4 [3, 0, 0, 0, 7, 0, 0, 0]) =
      ServerMessageType_value test_platform ENTITY_POSITION"
    by (simp add: u32_of_bytes_def test_platform_def)
  note t = onMessage_short_payload_invokes [OF distinct long sz, where E = test_events
      and rest = garbage and impl = listening_impl and w = "[]",
      THEN conjunct1, THEN mp, OF tag]
  have "fst (EditorClientImpl_onMessage test_platform test_events
              (mem_at [3, 0, 0, 0, 7, 0, 0, 0] garbage) 8 listening_impl []) = listening_impl"
    unfolding t by simp
  moreover have "map call_listener
         (snd (EditorClientImpl_onMessage test_platform test_events
                 (mem_at [3, 0, 0, 0, 7, 0, 0, 0] garbage) 8 listening_impl [])) = [1, 2, 3]"
    unfolding t by (simp add: listening_impl_def DelegateList_bind_def position_listener_def)
  ultimately show ?thesis
    using distinct long sz tag by blast
qed

subsection \<open>C7: listeners are called in the order of their registration\<close>

text \<open>
  C7. For each of the four event kinds: when three listeners were bound for the kind,
  in the order \<open>L1\<close>, \<open>L2\<close>, \<open>L3\<close>, and the tags of the kinds are distinct (they
  are the labels of one \<^verbatim>\<open>switch\<close>), a message with the tag of the kind makes
  \<open>EditorClientImpl_onMessage\<close> read one event from the stream behind the tag and call
  \<open>L1\<close>, then \<open>L2\<close>, then \<open>L3\<close>, once each, before it returns. Each is called on
  the one event object, as the listener before left it, and on the surroundings as the
  listener before left them. For any number of listeners: one bound later is called
  after all those bound before it, on the event as they left it.
\<close>

theorem onMessage_invokes_in_registration_order:
  assumes "inj (ServerMessageType_value P)"
  shows "(leading_tag P data = ServerMessageType_value P ENTITY_POSITION \<longrightarrow>
            EditorClientImpl_onMessage P E data sz
              (impl\<lparr>m_entity_position_changed :=
                 DelegateList_bind (DelegateList_bind (DelegateList_bind [] A1) A2) A3\<rparr>) w =
            (impl\<lparr>m_entity_position_changed :=
                 DelegateList_bind (DelegateList_bind (DelegateList_bind [] A1) A2) A3\<rparr>,
             snd (case A1 (EntityPositionEvent_read E (stream_after_tag data sz)) w of
                    (m1, w1) \<Rightarrow> case A2 m1 w1 of (m2, w2) \<Rightarrow> A3 m2 w2)))
       \<and> (leading_tag P data = ServerMessageType_value P ENTITY_SELECTED \<longrightarrow>
            EditorClientImpl_onMessage P E data sz
              (impl\<lparr>m_entity_selected :=
                 DelegateList_bind (DelegateList_bind (DelegateList_bind [] B1) B2) B3\<rparr>) w =
            (impl\<lparr>m_entity_selected :=
                 DelegateList_bind (DelegateList_bind (DelegateList_bind [] B1) B2) B3\<rparr>,
             snd (case B1 (EntitySelectedEvent_read E (stream_after_tag data sz)) w of
                    (m1, w1) \<Rightarrow> case B2 m1 w1 of (m2, w2) \<Rightarrow> B3 m2 w2)))
       \<and> (leading_tag P data = ServerMessageType_value P PROPERTY_LIST \<longrightarrow>
            EditorClientImpl_onMessage P E data sz
              (impl\<lparr>m_property_list_received :=
                 DelegateList_bind (DelegateList_bind (DelegateList_bind [] D1) D2) D3\<rparr>) w =
            (impl\<lparr>m_property_list_received :=
                 DelegateList_bind (DelegateList_bind (DelegateList_bind [] D1) D2) D3\<rparr>,
             snd (case D1 (PropertyListEvent_read E (stream_after_tag data sz)) w of
                    (m1, w1) \<Rightarrow> case D2 m1 w1 of (m2, w2) \<Rightarrow> D3 m2 w2)))
       \<and> (leading_tag P data = ServerMessageType_value P LOG_MESSAGE \<longrightarrow>
            EditorClientImpl_onMessage P E data sz
              (impl\<lparr>m_message_logged :=
                 DelegateList_bind (DelegateList_bind (DelegateList_bind [] C1) C2) C3\<rparr>) w =
            (impl\<lparr>m_message_logged :=
                 DelegateList_bind (DelegateList_bind (DelegateList_bind [] C1) C2) C3\<rparr>,
             snd (case C1 (LogEvent_read E (stream_after_tag data sz)) w of
                    (m1, w1) \<Rightarrow> case C2 m1 w1 of (m2, w2) \<Rightarrow> C3 m2 w2)))
       \<and> DelegateList_invoke (DelegateList_bind ds d) msg w' =
           (case DelegateList_invoke ds msg w' of (msg', w'') \<Rightarrow> d msg' w'')"
  using assms
  by (simp add: onMessage_ENTITY_POSITION onMessage_ENTITY_SELECTED onMessage_PROPERTY_LIST
      onMessage_LOG_MESSAGE DelegateList_invoke_three DelegateList_invoke_append DelegateList_bind_def
      split: prod.splits)

text \<open>
  On the test bench: a position message for entity 7 at (1.0, 2.0, 3.0) is handed to the
  three position listeners, 1 then 2 then 3, each once and each with the same event.
\<close>

theorem onMessage_invokes_in_registration_order_witness:
  "inj (ServerMessageType_value test_platform)
   \<and> leading_tag test_platform
         (mem_at [3, 0, 0, 0, 7, 0, 0, 0, 0, 0, 0x80, 0x3F, 0, 0, 0, 0x40, 0, 0, 0x40, 0x40] garbage) =
       ServerMessageType_value test_platform ENTITY_POSITION
   \<and> EditorClientImpl_onMessage test_platform test_events
         (mem_at [3, 0, 0, 0, 7, 0, 0, 0, 0, 0, 0x80, 0x3F, 0, 0, 0, 0x40, 0, 0, 0x40, 0x40] garbage) 20
         listening_impl [] =
       (listening_impl,
        [PositionCall 1 (7, 0x3F800000, 0x40000000, 0x40400000),
         PositionCall 2 (7, 0x3F800000, 0x40000000, 0x40400000),
         PositionCall 3 (7, 0x3F800000, 0x40000000, 0x40400000)])"
proof -
  let ?data = "mem_at [3, 0, 0, 0, 7, 0, 0, 0, 0, 0, 0x80, 0x3F, 0, 0, 0, 0x40, 0, 0, 0x40, 0x40] garbage"
  have distinct: "inj (ServerMessageType_value test_platform)"
    by (simp add: test_platform_def inj_test_server_tag)
  have tag: "leading_tag test_platform ?data = ServerMessageType_value test_platform ENTITY_POSITION"
    by (simp add: leading_tag_position) (simp add: test_platform_def)
  note t = onMessage_invokes_in_registration_order [OF distinct, where data = ?data and E = test_events
      and sz = 20 and impl = listening_impl and w = "[]" and ?A1.0 = "position_listener 1"
      and ?A2.0 = "position_listener 2" and ?A3.0 = "position_listener 3"]
  note t [THEN conjunct1, THEN mp, OF tag, unfolded listening_impl_position]
  then have "EditorClientImpl_onMessage test_platform test_events ?data 20 listening_impl [] =
       (listening_impl,
        [PositionCall 1 (7, 0x3F800000, 0x40000000, 0x40400000),
         PositionCall 2 (7, 0x3F800000, 0x40000000, 0x40400000),
         PositionCall 3 (7, 0x3F800000, 0x40000000, 0x40400000)])"
    by (simp add: test_events_def read_position_bench position_listener_def)
  with distinct tag show ?thesis by blast
qed

subsection \<open>C8: the stream that setComponentProperty uses again\<close>

text \<open>
  C8. On a client that has an implementation and for a length that fits, the message
  that \<open>setComponentProperty\<close> hands to the server is a function of its arguments
  alone: the tag and the payload of C2, whatever the static stream holds from earlier
  calls, whatever the client's paths and listeners are and whatever the server's state
  is. On a stream with any content the call sends what it sends on a new stream, and
  leaves the same bytes in the buffer. After any run of commands that came back without
  a fault, a call with the same arguments hands the server the same bytes once more.
\<close>

theorem setComponentProperty_same_message:
  assumes "m_impl c = Some impl" and "0 \<le> sint len" and "sint len + 16 < 2 ^ 31"
  shows "(let e = byte_order P;
              payload = bytes_of_u32 e (crc32 component) @ bytes_of_u32 e (crc32 property)
                          @ bytes_of_u32 e len @ map val [0..<nat (sint len)];
              message = bytes_of_u32 e (ClientMessageType_value P PROPERTY_SET) @ payload
          in setComponentProperty P on component property val len c stream srv =
               Inr (c, stream\<lparr>m_buffer := payload\<rparr>, on (ptr_to message) (of_nat (length message)) srv)
           \<and> setComponentProperty P on component property val len c Blob_new srv =
               Inr (c, Blob_new\<lparr>m_buffer := payload\<rparr>, on (ptr_to message) (of_nat (length message)) srv)
           \<and> region (ptr_to message) (of_nat (length message)) = Inr message
           \<and> (emit_all P on cmds c stream' srv' = Inr (c2, stream2, srv2) \<longrightarrow>
                setComponentProperty P on component property val len c2 stream2 srv2 =
                  Inr (c2, stream2\<lparr>m_buffer := payload\<rparr>,
                       on (ptr_to message) (of_nat (length message)) srv2)))"
proof -
  let ?cmd = "SetComponentProperty component property val len"
  have fits: "command_fits ?cmd"
    using assms(2,3) by simp
  have sends: "setComponentProperty P on component property val len k s v =
      Inr (k, s\<lparr>m_buffer := spec_payload (byte_order P) ?cmd\<rparr>,
           on (ptr_to (framed P ?cmd)) (of_nat (length (framed P ?cmd))) v)"
    if "m_impl k \<noteq> None" for k :: "('a, 'b, 'c, 'd, 'e) EditorClient" and s v
  proof -
    from that obtain i where "m_impl k = Some i" by auto
    then show ?thesis using assms(2,3) by (rule setComponentProperty_sends)
  qed
  have here: "m_impl c \<noteq> None"
    using assms(1) by simp
  have later: "m_impl c2 \<noteq> None"
    if "emit_all P on cmds c stream' srv' = Inr (c2, stream2, srv2)"
    using here that by (rule emit_all_Inr_impl)
  have reg: "region (ptr_to (framed P ?cmd)) (of_nat (length (framed P ?cmd))) = Inr (framed P ?cmd)"
    using fits by (intro region_ptr_to length_framed_fits)
  show ?thesis
    using sends [OF here] sends [OF later] reg
    by (simp add: Let_def framed_def)
qed

text \<open>
  On the test bench: \<open>setComponentProperty("Transform", "Scale", ...)\<close> on a new client,
  then \<open>loadUniverse("foo.unv")\<close> and \<open>lookAtSelected()\<close>, then the first call again.
  The server records four messages; the fourth is the first, byte for byte.
\<close>

theorem setComponentProperty_same_message_witness:
  "m_impl created_client = Some \<lparr>m_base_path = ''base'', m_universe_path = [],
     m_entity_position_changed = [], m_entity_selected = [], m_message_logged = [],
     m_property_list_received = []\<rparr>
   \<and> 0 \<le> sint (4 :: int32) \<and> sint (4 :: int32) + 16 < 2 ^ 31
   \<and> setComponentProperty test_platform recording_server ''Transform'' ''Scale''
         (ptr_to [0x3F, 0x80, 0x00, 0x00]) 4 created_client Blob_new [] =
       Inr (created_client,
            Blob_new\<lparr>m_buffer := [0x0E, 0x03, 0x43, 0xF5, 0x80, 0x0A, 0x87, 0x2D, 4, 0, 0, 0, 0x3F, 0x80, 0, 0]\<rparr>,
            [Inr [4, 0, 0, 0, 0x0E, 0x03, 0x43, 0xF5, 0x80, 0x0A, 0x87, 0x2D, 4, 0, 0, 0, 0x3F, 0x80, 0, 0]])
   \<and> setComponentProperty test_platform recording_server ''Transform'' ''Scale''
         (ptr_to [0x3F, 0x80, 0x00, 0x00]) 4
         (created_client\<lparr>m_impl := Some \<lparr>m_base_path = ''base'', m_universe_path = ''foo.unv'',
            m_entity_position_changed = [], m_entity_selected = [], m_message_logged = [],
            m_property_list_received = []\<rparr>\<rparr>)
         (Blob_new\<lparr>m_buffer := [0x0E, 0x03, 0x43, 0xF5, 0x80, 0x0A, 0x87, 0x2D, 4, 0, 0, 0, 0x3F, 0x80, 0, 0]\<rparr>)
         [Inr [4, 0, 0, 0, 0x0E, 0x03, 0x43, 0xF5, 0x80, 0x0A, 0x87, 0x2D, 4, 0, 0, 0, 0x3F, 0x80, 0, 0],
          Inr [7, 0, 0, 0, 0x66, 0x6F, 0x6F, 0x2E, 0x75, 0x6E, 0x76, 0],
          Inr [15, 0, 0, 0]] =
       Inr (created_client\<lparr>m_impl := Some \<lparr>m_base_path = ''base'', m_universe_path = ''foo.unv'',
              m_entity_position_changed = [], m_entity_selected = [], m_message_logged = [],
              m_property_list_received = []\<rparr>\<rparr>,
            Blob_new\<lparr>m_buffer := [0x0E, 0x03, 0x43, 0xF5, 0x80, 0x0A, 0x87, 0x2D, 4, 0, 0, 0, 0x3F, 0x80, 0, 0]\<rparr>,
            [Inr [4, 0, 0, 0, 0x0E, 0x03, 0x43, 0xF5, 0x80, 0x0A, 0x87, 0x2D, 4, 0, 0, 0, 0x3F, 0x80, 0, 0],
             Inr [7, 0, 0, 0, 0x66, 0x6F, 0x6F, 0x2E, 0x75, 0x6E, 0x76, 0],
             Inr [15, 0, 0, 0],
             Inr [4, 0, 0, 0, 0x0E, 0x03, 0x43, 0xF5, 0x80, 0x0A, 0x87, 0x2D, 4, 0, 0, 0, 0x3F, 0x80, 0, 0]])"
proof -
  have nonneg: "0 \<le> sint (4 :: int32)" and fits: "sint (4 :: int32) + 16 < 2 ^ 31"
    by simp_all
  have val: "map (ptr_to [0x3F, 0x80, 0x00, 0x00]) [0..<4] = [0x3F, 0x80, 0x00, 0x00]"
    by (rule map_ptr_to_eq) simp
  note first = setComponentProperty_same_message [where P = test_platform and on = recording_server
      and component = "''Transform''" and property = "''Scale''"
      and val = "ptr_to [0x3F, 0x80, 0x00, 0x00]" and stream = Blob_new and srv = "[]"
      and cmds = "[]" and stream' = Blob_new and srv' = "[]",
      OF created_client_impl nonneg fits]
  have 1: "setComponentProperty test_platform recording_server ''Transform'' ''Scale''
         (ptr_to [0x3F, 0x80, 0x00, 0x00]) 4 created_client Blob_new [] =
       Inr (created_client,
            Blob_new\<lparr>m_buffer := [0x0E, 0x03, 0x43, 0xF5, 0x80, 0x0A, 0x87, 0x2D, 4, 0, 0, 0, 0x3F, 0x80, 0, 0]\<rparr>,
            [Inr [4, 0, 0, 0, 0x0E, 0x03, 0x43, 0xF5, 0x80, 0x0A, 0x87, 0x2D, 4, 0, 0, 0, 0x3F, 0x80, 0, 0]])"
    using first
    by (simp add: Let_def val crc32_Transform crc32_Scale recording_server_def
        test_platform_def bytes_of_u32_def le_bytes_def)
  note second = setComponentProperty_same_message [where P = test_platform and on = recording_server
      and component = "''Transform''" and property = "''Scale''"
      and val = "ptr_to [0x3F, 0x80, 0x00, 0x00]" and stream = Blob_new and srv = "[]"
      and cmds = "[LoadUniverse ''foo.unv'', LookAtSelected]",
      OF created_client_impl nonneg fits, unfolded Let_def,
      THEN conjunct2, THEN conjunct2, THEN conjunct2, THEN mp, OF bench_run]
  have 2: "setComponentProperty test_platform recording_server ''Transform'' ''Scale''
         (ptr_to [0x3F, 0x80, 0x00, 0x00]) 4
         (created_client\<lparr>m_impl := Some \<lparr>m_base_path = ''base'', m_universe_path = ''foo.unv'',
            m_entity_position_changed = [], m_entity_selected = [], m_message_logged = [],
            m_property_list_received = []\<rparr>\<rparr>)
         (Blob_new\<lparr>m_buffer := [0x0E, 0x03, 0x43, 0xF5, 0x80, 0x0A, 0x87, 0x2D, 4, 0, 0, 0, 0x3F, 0x80, 0, 0]\<rparr>)
         [Inr [4, 0, 0, 0, 0x0E, 0x03, 0x43, 0xF5, 0x80, 0x0A, 0x87, 0x2D, 4, 0, 0, 0, 0x3F, 0x80, 0, 0],
          Inr [7, 0, 0, 0, 0x66, 0x6F, 0x6F, 0x2E, 0x75, 0x6E, 0x76, 0],
          Inr [15, 0, 0, 0]] =
       Inr (created_client\<lparr>m_impl := Some \<lparr>m_base_path = ''base'', m_universe_path = ''foo.unv'',
              m_entity_position_changed = [], m_entity_selected = [], m_message_logged = [],
              m_property_list_received = []\<rparr>\<rparr>,
            Blob_new\<lparr>m_buffer := [0x0E, 0x03, 0x43, 0xF5, 0x80, 0x0A, 0x87, 0x2D, 4, 0, 0, 0, 0x3F, 0x80, 0, 0]\<rparr>,
            [Inr [4, 0, 0, 0, 0x0E, 0x03, 0x43, 0xF5, 0x80, 0x0A, 0x87, 0x2D, 4, 0, 0, 0, 0x3F, 0x80, 0, 0],
             Inr [7, 0, 0, 0, 0x66, 0x6F, 0x6F, 0x2E, 0x75, 0x6E, 0x76, 0],
             Inr [15, 0, 0, 0],
             Inr [4, 0, 0, 0, 0x0E, 0x03, 0x43, 0xF5, 0x80, 0x0A, 0x87, 0x2D, 4, 0, 0, 0, 0x3F, 0x80, 0, 0]])"
    using second first
    by (simp add: Let_def val crc32_Transform crc32_Scale recording_server_def
        test_platform_def bytes_of_u32_def le_bytes_def)
  show ?thesis
    using 1 2 nonneg fits created_client_impl by simp
qed

subsection \<open>C9: a dispatch leaves the client as it was\<close>

text \<open>
  C9. \<open>onMessage\<close> gives the client back as it was, for every inbound message: the
  lists of listeners, the universe path and the base path are those from before the call,
  whether the tag is one of the four, another value, or taken from bytes that the
  message was too short to hold. So the message that follows is dispatched as if the
  earlier one had not come.
\<close>

theorem onMessage_keeps_client:
  "fst (onMessage P E data sz c w) = c
   \<and> fst (EditorClientImpl_onMessage P E data sz impl w) = impl
   \<and> onMessage P E data' sz' (fst (onMessage P E data sz c w)) w' = onMessage P E data' sz' c w'"
  by (simp add: fst_onMessage fst_EditorClientImpl_onMessage)

subsection \<open>C10: a client without implementation\<close>

text \<open>
  C10. After \<open>destroy\<close> the implementation pointer is null. On a client whose
  implementation pointer is null, (after \<open>destroy\<close>, or null for any other reason)
  \<open>onMessage\<close> calls no listener and changes nothing, and \<open>destroy\<close> changes nothing:
  a second \<open>destroy\<close> gives what the first one gave.
\<close>

theorem destroy_null_client:
  "m_impl (destroy c) = None
   \<and> onMessage P E data sz (destroy c) w = (destroy c, w)
   \<and> destroy (destroy c) = destroy c
   \<and> onMessage P E data sz (c\<lparr>m_impl := None\<rparr>) w = (c\<lparr>m_impl := None\<rparr>, w)
   \<and> destroy (c\<lparr>m_impl := None\<rparr>) = c\<lparr>m_impl := None\<rparr>"
proof -
  have null: "m_impl (destroy c) = None"
    by (cases "m_impl c") (simp_all add: destroy_def)
  have "onMessage P E data sz (destroy c) w = (destroy c, w)"
    using null by (simp add: onMessage_def)
  moreover have "destroy (destroy c) = destroy c"
    using null by (simp add: destroy_def [of "destroy c"])
  ultimately show ?thesis
    using null by (simp add: onMessage_def destroy_def)
qed

end
